theory Spec2Isabelle
  imports Main "HOL-Library.AList"
begin

section \<open>JavaScript strings\<close>

text \<open>
  Strings are \<^typ>\<open>string\<close> (lists of characters). \<open>toLowerCase\<close> below is the lower-casing
  of the ASCII letters \<open>A\<close>..\<open>Z\<close>, character by character; it is used where the program
  lower-cases a model id, a provider name or a host name to test it against ASCII literals
  and registered names. Where the program compares two strings of user data after
  lower-casing both (the model mapper), \<open>String.prototype.toLowerCase\<close>, which folds every
  cased letter of Unicode, is a parameter of the model.
\<close>

definition toLowerChar :: "char \<Rightarrow> char" where
  "toLowerChar c =
     (case map_of (zip ''ABCDEFGHIJKLMNOPQRSTUVWXYZ'' ''abcdefghijklmnopqrstuvwxyz'') c of
        Some l \<Rightarrow> l
      | None \<Rightarrow> c)"

definition toLowerCase :: "string \<Rightarrow> string" where
  "toLowerCase s = map toLowerChar s"

text \<open>\<open>s.startsWith(p)\<close>\<close>

definition startsWith :: "string \<Rightarrow> string \<Rightarrow> bool" where
  "startsWith s p = (take (length p) s = p)"

text \<open>\<open>s.includes(n)\<close>: \<open>n\<close> occurs at some position of \<open>s\<close>.\<close>

fun str_includes :: "string \<Rightarrow> string \<Rightarrow> bool" where
  "str_includes [] n = (n = [])"
| "str_includes (c # cs) n = (startsWith (c # cs) n \<or> str_includes cs n)"

text \<open>\<open>xs.find(pred)\<close>: the first element that satisfies the predicate, or \<open>undefined\<close>.\<close>

fun find_first :: "('a \<Rightarrow> bool) \<Rightarrow> 'a list \<Rightarrow> 'a option" where
  "find_first P [] = None"
| "find_first P (x # xs) = (if P x then Some x else find_first P xs)"

section \<open>Provider profiles (libs/types/src/provider-profile.ts)\<close>

datatype ProviderProfileType = AnthropicCompatible | OpenAICompatible

text \<open>
  An interface of the source is a datatype with one constructor and one selector per
  field, in the order of the source.
\<close>

datatype ConnectionTestResult = ConnectionTestResult
  (success: bool)
  (responseTimeMs: "int option")
  (error: "string option")
  (availableModels: "string list option")
  (testedAt: string)

datatype ModelMappingEntry = ModelMappingEntry
  (localModel: string)
  (remoteModel: string)

text \<open>
  The interface \<open>ProviderProfile\<close>. The fields \<open>id\<close>, \<open>name\<close> and \<open>type\<close> of
  the source are \<open>profileId\<close>, \<open>profileName\<close> and \<open>profileType\<close> here; an optional
  field (\<open>timeout?: number\<close>) is an \<open>option\<close>, \<open>None\<close> standing for \<open>undefined\<close>.
\<close>

datatype ProviderProfile = ProviderProfile
  (profileId: string)
  (profileName: string)
  (profileType: ProviderProfileType)
  (baseUrl: string)
  (apiKey: string)
  (modelMapping: "ModelMappingEntry list")
  (isActive: bool)
  (priority: int)
  (timeout: "int option")
  (description: "string option")
  (customCaCert: "string option")
  (allowInternalUrls: "bool option")
  (rateLimitRpm: "int option")
  (lastConnectionTest: "ConnectionTestResult option")
  (createdAt: string)
  (updatedAt: string)

definition DEFAULT_PROVIDER_TIMEOUT :: int where
  "DEFAULT_PROVIDER_TIMEOUT = 30000"

subsection \<open>Model mapper\<close>

text \<open>
  \<open>mapping?.remoteModel ?? localModel\<close> over the first match of \<open>find\<close>, which compares
  the lower-cased names. The names are user data in any script, strings in any encoding
  that tells different names apart: \<open>lowerCase\<close> stands for
  \<open>String.prototype.toLowerCase\<close> on them, and the properties below hold for every such
  function.
\<close>

definition mapModelToRemote :: "(string \<Rightarrow> string) \<Rightarrow> string \<Rightarrow> ProviderProfile \<Rightarrow> string" where
  "mapModelToRemote lowerCase local p =
     (case find_first (\<lambda>m. lowerCase (localModel m) = lowerCase local) (modelMapping p) of
        Some mapping \<Rightarrow> remoteModel mapping
      | None \<Rightarrow> local)"

definition mapModelFromRemote :: "(string \<Rightarrow> string) \<Rightarrow> string \<Rightarrow> ProviderProfile \<Rightarrow> string" where
  "mapModelFromRemote lowerCase remote p =
     (case find_first (\<lambda>m. lowerCase (remoteModel m) = lowerCase remote) (modelMapping p) of
        Some mapping \<Rightarrow> localModel mapping
      | None \<Rightarrow> remote)"

section \<open>Anthropic proxy provider (apps/server/src/providers/anthropic-proxy-provider.ts)\<close>

text \<open>
  \<open>process.env\<close> is a partial map from variable names to strings. The environment built
  for the SDK is a JavaScript object: an association list in insertion order, an assignment
  \<open>env[key] = v\<close> replacing the value of a key already there and appending a new key.
  A variable is copied only if \<open>process.env[key]\<close> is truthy: set, and not the empty string.
\<close>

definition ALLOWED_ENV_VARS :: "string list" where
  "ALLOWED_ENV_VARS = [''PATH'', ''HOME'', ''SHELL'', ''TERM'', ''USER'', ''LANG'', ''LC_ALL'']"

fun copyAllowed :: "(string \<rightharpoonup> string) \<Rightarrow> string list \<Rightarrow> (string \<times> string) list \<Rightarrow> (string \<times> string) list" where
  "copyAllowed penv [] env = env"
| "copyAllowed penv (key # keys) env =
     copyAllowed penv keys
       (case penv key of
          None \<Rightarrow> env
        | Some v \<Rightarrow> if v \<noteq> [] then AList.update key v env else env)"

definition buildEnv :: "(string \<rightharpoonup> string) \<Rightarrow> ProviderProfile \<Rightarrow> (string \<times> string) list" where
  "buildEnv penv profile =
     AList.update ''ANTHROPIC_API_KEY'' (apiKey profile)
       (AList.update ''ANTHROPIC_BASE_URL'' (baseUrl profile)
          (copyAllowed penv ALLOWED_ENV_VARS []))"

section \<open>SSRF guard (libs/types/src/provider-profile.ts)\<close>

subsection \<open>Regular expressions\<close>

text \<open>
  The patterns of the SSRF guard are regular expressions over characters, matched by
  derivatives. \<open>OneOf cs\<close> is a character class, \<open>lit s\<close> a literal, \<open>digits\<close> is
  \<open>\d+\<close>, \<open>opt r\<close> is \<open>r?\<close>.
\<close>

datatype rx = Null | Eps | OneOf string | Seq rx rx | Alt rx rx | Star rx

fun nullable :: "rx \<Rightarrow> bool" where
  "nullable Null = False"
| "nullable Eps = True"
| "nullable (OneOf cs) = False"
| "nullable (Seq r s) = (nullable r \<and> nullable s)"
| "nullable (Alt r s) = (nullable r \<or> nullable s)"
| "nullable (Star r) = True"

fun deriv :: "char \<Rightarrow> rx \<Rightarrow> rx" where
  "deriv c Null = Null"
| "deriv c Eps = Null"
| "deriv c (OneOf cs) = (if c \<in> set cs then Eps else Null)"
| "deriv c (Seq r s) =
     (if nullable r then Alt (Seq (deriv c r) s) (deriv c s) else Seq (deriv c r) s)"
| "deriv c (Alt r s) = Alt (deriv c r) (deriv c s)"
| "deriv c (Star r) = Seq (deriv c r) (Star r)"

definition rx_match :: "rx \<Rightarrow> string \<Rightarrow> bool" where
  "rx_match r s = nullable (foldl (\<lambda>q c. deriv c q) r s)"

definition lit :: "string \<Rightarrow> rx" where
  "lit s = foldr (\<lambda>c r. Seq (OneOf [c]) r) s Eps"

definition seqs :: "rx list \<Rightarrow> rx" where
  "seqs rs = foldr Seq rs Eps"

definition digit :: rx where
  "digit = OneOf ''0123456789''"

definition digits :: rx where
  "digits = Seq digit (Star digit)"

definition opt :: "rx \<Rightarrow> rx" where
  "opt r = Alt r Eps"

text \<open>
  A pattern \<open>/^r$/\<close> matches the whole string, a pattern \<open>/^r/\<close> a prefix of it. The
  flag \<open>i\<close> ignores letter case: the literals of the patterns below are in lower case, so
  the string is lower-cased before it is matched.
\<close>

datatype pattern = Pattern (body: rx) (toEnd: bool) (ignoreCase: bool)

definition pattern_test :: "pattern \<Rightarrow> string \<Rightarrow> bool" where
  "pattern_test p s =
     (let t = (if ignoreCase p then toLowerCase s else s)
      in if toEnd p then rx_match (body p) t
         else list_ex (\<lambda>n. rx_match (body p) (take n t)) [0..<Suc (length t)])"

subsection \<open>The guard\<close>

datatype SsrfValidationResult = SsrfValidationResult
  (safe: bool)
  (reason: "string option")
  (bypassedByUser: "bool option")

text \<open>
  \<open>new URL(url)\<close> is the platform's parser, a parameter \<open>newURL\<close> of the model: it
  returns the parsed URL, of which the guard reads \<open>protocol\<close> and \<open>hostname\<close>, or throws
  a \<open>TypeError\<close> (\<open>Inl\<close> of its message).
\<close>

datatype URL = URL (protocol: string) (hostname: string)

definition internalPatterns :: "pattern list" where
  "internalPatterns =
     [Pattern (lit ''localhost'') True True,
      Pattern (seqs [lit ''127.'', digits, lit ''.'', digits, lit ''.'', digits]) True False,
      Pattern (seqs [opt (lit ''[''), lit ''::1'', opt (lit '']'')]) True False,
      Pattern (seqs [lit ''10.'', digits, lit ''.'', digits, lit ''.'', digits]) True False,
      Pattern (seqs [lit ''172.'',
          Alt (Seq (lit ''1'') (OneOf ''6789'')) (Alt (Seq (lit ''2'') digit) (Seq (lit ''3'') (OneOf ''01''))),
          lit ''.'', digits, lit ''.'', digits]) True False,
      Pattern (seqs [lit ''192.168.'', digits, lit ''.'', digits]) True False,
      Pattern (seqs [lit ''169.254.'', digits, lit ''.'', digits]) True False,
      Pattern (lit ''0.0.0.0'') True False,
      Pattern (seqs [opt (lit ''[''), lit ''fe80:'']) False True,
      Pattern (seqs [opt (lit ''[''), lit ''fc00:'']) False True,
      Pattern (seqs [opt (lit ''[''), lit ''fd00:'']) False True]"

definition protocolReason :: string where
  "protocolReason = ''Only HTTP and HTTPS protocols are allowed''"

definition internalReason :: "string \<Rightarrow> string" where
  \<open>internalReason host =
     ''Internal/private addresses are not allowed: '' @ host @
     ''. Enable "Allow Internal URLs" to bypass this check.''\<close>

text \<open>The loop over the patterns: the first pattern that matches decides.\<close>

fun testPatterns :: "pattern list \<Rightarrow> string \<Rightarrow> bool \<Rightarrow> SsrfValidationResult" where
  "testPatterns [] host allowInternal = SsrfValidationResult True None None"
| "testPatterns (p # ps) host allowInternal =
     (if pattern_test p host then
        (if allowInternal then SsrfValidationResult True None (Some True)
         else SsrfValidationResult False (Some (internalReason host)) None)
      else testPatterns ps host allowInternal)"

text \<open>The \<open>try\<close> block, and around it the \<open>catch\<close> that turns the parser's exception into a result.\<close>

definition validateBaseUrlSsrf :: "(string \<Rightarrow> string + URL) \<Rightarrow> string \<Rightarrow> bool \<Rightarrow> SsrfValidationResult" where
  "validateBaseUrlSsrf newURL url allowInternal =
     (case newURL url of
        Inl message \<Rightarrow> SsrfValidationResult False (Some (''Invalid URL: '' @ message)) None
      | Inr parsed \<Rightarrow>
          if protocol parsed \<notin> set [''http:'', ''https:'']
          then SsrfValidationResult False (Some protocolReason) None
          else testPatterns internalPatterns (toLowerCase (hostname parsed)) allowInternal)"

section \<open>Provider profile service (class ProviderProfileService)\<close>

text \<open>
  An \<open>Error\<close> that the program itself throws (\<open>throw new Error(message)\<close>) is a value
  carrying its message; a function of the program that can throw one returns \<open>exn + 'a\<close>,
  with \<open>Inl\<close> for the exception. What a function of the caller may throw is any value:
  see \<open>JsValue\<close> at \<open>executeWithFallback\<close>.
\<close>

datatype exn = Error string

text \<open>\<open>x ?? d\<close>, for a default that is defined and for one that may itself be \<open>undefined\<close>.\<close>

definition nullish :: "'a option \<Rightarrow> 'a \<Rightarrow> 'a" where
  "nullish x d = (case x of Some v \<Rightarrow> v | None \<Rightarrow> d)"

definition nullishOpt :: "'a option \<Rightarrow> 'a option \<Rightarrow> 'a option" where
  "nullishOpt x d = (case x of Some v \<Rightarrow> Some v | None \<Rightarrow> d)"

datatype CreateProviderProfileInput = CreateProviderProfileInput
  (c_name: string)
  (c_type: ProviderProfileType)
  (c_baseUrl: string)
  (c_apiKey: string)
  (c_modelMapping: "ModelMappingEntry list option")
  (c_isActive: "bool option")
  (c_priority: "int option")
  (c_timeout: "int option")
  (c_description: "string option")
  (c_customCaCert: "string option")
  (c_allowInternalUrls: "bool option")
  (c_rateLimitRpm: "int option")

datatype UpdateProviderProfileInput = UpdateProviderProfileInput
  (u_id: string)
  (u_name: "string option")
  (u_type: "ProviderProfileType option")
  (u_baseUrl: "string option")
  (u_apiKey: "string option")
  (u_modelMapping: "ModelMappingEntry list option")
  (u_isActive: "bool option")
  (u_priority: "int option")
  (u_timeout: "int option")
  (u_description: "string option")
  (u_customCaCert: "string option")
  (u_allowInternalUrls: "bool option")
  (u_rateLimitRpm: "int option")

text \<open>
  Modelled from the spec: the settings store (\<open>settings-service.js\<close> is not among the
  sources). The spec gives its interface: \<open>getGlobalSettings() -> {providerProfiles}\<close> and
  \<open>updateGlobalSettings(partial) -> void\<close>, the sole source of truth for the profiles. The
  store holds the profile list (\<open>None\<close> when the settings have no \<open>providerProfiles\<close>) and
  counts the calls of \<open>updateGlobalSettings\<close>.
\<close>

datatype SettingsStore = SettingsStore
  (providerProfiles: "ProviderProfile list option")
  (updateCalls: nat)

definition updateGlobalSettings :: "ProviderProfile list \<Rightarrow> SettingsStore \<Rightarrow> SettingsStore" where
  "updateGlobalSettings profiles st = SettingsStore (Some profiles) (Suc (updateCalls st))"

text \<open>\<open>settings.providerProfiles || []\<close>\<close>

definition storedProfiles :: "SettingsStore \<Rightarrow> ProviderProfile list" where
  "storedProfiles st = (case providerProfiles st of Some ps \<Rightarrow> ps | None \<Rightarrow> [])"

text \<open>
  A priority is an integer (the data model of the specification) held in a JavaScript
  number, a double: \<open>+\<close> on two such numbers is the exact sum rounded to the nearest
  double, ties to the even significand. The integers up to \<open>2 ^ 53\<close> in magnitude are
  doubles; beyond, a double is a multiple of the power of two that leaves 53 significant
  bits. \<open>bitLength a\<close> is the number of bits of \<open>a\<close>.
\<close>

fun bitLength :: "nat \<Rightarrow> nat" where
  "bitLength a = (if a = 0 then 0 else Suc (bitLength (a div 2)))"

declare bitLength.simps [simp del]

definition roundToDouble :: "int \<Rightarrow> int" where
  "roundToDouble n =
     (if \<bar>n\<bar> \<le> 2 ^ 53 then n
      else
        (let a = nat \<bar>n\<bar>;
             u = 2 ^ (bitLength a - 53);
             q = a div u;
             r = a mod u;
             rounded = (if u < 2 * r \<or> (2 * r = u \<and> odd q) then q + 1 else q)
         in sgn n * int (rounded * u)))"

definition jsAdd :: "int \<Rightarrow> int \<Rightarrow> int" where
  "jsAdd x y = roundToDouble (x + y)"

text \<open>
  \<open>profiles.length > 0 ? Math.max(...profiles.map((p) => p.priority)) : 0\<close>; the maximum
  of doubles is exact.
\<close>

definition maxPriority :: "ProviderProfile list \<Rightarrow> int" where
  "maxPriority profiles = (case map priority profiles of [] \<Rightarrow> 0 | x # xs \<Rightarrow> fold max xs x)"

text \<open>
  \<open>createProfile\<close>. The environment gives the URL parser, the result of \<open>randomUUID()\<close>
  and the timestamp \<open>new Date().toISOString()\<close>.
\<close>

definition createProfile ::
  "(string \<Rightarrow> string + URL) \<Rightarrow> string \<Rightarrow> string \<Rightarrow> CreateProviderProfileInput \<Rightarrow> SettingsStore
     \<Rightarrow> (exn + ProviderProfile) \<times> SettingsStore" where
  "createProfile newURL uuid now input st =
     (let ssrfResult = validateBaseUrlSsrf newURL (c_baseUrl input) (nullish (c_allowInternalUrls input) False)
      in if \<not> safe ssrfResult
         then (Inl (Error (''Invalid base URL: '' @ nullish (reason ssrfResult) ''undefined'')), st)
         else
           let profiles = storedProfiles st;
               profile = ProviderProfile
                 uuid
                 (c_name input)
                 (c_type input)
                 (c_baseUrl input)
                 (c_apiKey input)
                 (nullish (c_modelMapping input) [])
                 (nullish (c_isActive input) True)
                 (nullish (c_priority input) (jsAdd (maxPriority profiles) 1))
                 (Some (nullish (c_timeout input) DEFAULT_PROVIDER_TIMEOUT))
                 (c_description input)
                 (c_customCaCert input)
                 (Some (nullish (c_allowInternalUrls input) False))
                 (Some (nullish (c_rateLimitRpm input) 0))
                 None
                 now
                 now
           in (Inr profile, updateGlobalSettings (profiles @ [profile]) st))"

text \<open>\<open>profiles.findIndex(pred)\<close>, with \<open>None\<close> for \<open>-1\<close>.\<close>

fun findIndex :: "('a \<Rightarrow> bool) \<Rightarrow> 'a list \<Rightarrow> nat option" where
  "findIndex P [] = None"
| "findIndex P (x # xs) = (if P x then Some 0 else map_option Suc (findIndex P xs))"

text \<open>
  \<open>updateProfile\<close>. The guard \<open>input.baseUrl && input.baseUrl !== existing.baseUrl\<close>
  holds for a \<open>baseUrl\<close> that is given, is not the empty string, and differs from the
  stored one; the merge \<open>input.baseUrl ?? existing.baseUrl\<close> takes every given \<open>baseUrl\<close>.
\<close>

definition updateProfile ::
  "(string \<Rightarrow> string + URL) \<Rightarrow> string \<Rightarrow> UpdateProviderProfileInput \<Rightarrow> SettingsStore
     \<Rightarrow> (exn + ProviderProfile) \<times> SettingsStore" where
  "updateProfile newURL now input st =
     (let profiles = storedProfiles st
      in case findIndex (\<lambda>p. profileId p = u_id input) profiles of
           None \<Rightarrow> (Inl (Error (''Provider profile not found: '' @ u_id input)), st)
         | Some index \<Rightarrow>
             let existing = profiles ! index;
                 ssrfResult =
                   (if (case u_baseUrl input of Some b \<Rightarrow> b \<noteq> [] \<and> b \<noteq> baseUrl existing | None \<Rightarrow> False)
                    then validateBaseUrlSsrf newURL (nullish (u_baseUrl input) [])
                           (nullish (nullishOpt (u_allowInternalUrls input) (allowInternalUrls existing)) False)
                    else SsrfValidationResult True None None)
             in if \<not> safe ssrfResult
                then (Inl (Error (''Invalid base URL: '' @ nullish (reason ssrfResult) ''undefined'')), st)
                else
                  let updated = ProviderProfile
                        (profileId existing)
                        (nullish (u_name input) (profileName existing))
                        (nullish (u_type input) (profileType existing))
                        (nullish (u_baseUrl input) (baseUrl existing))
                        (nullish (u_apiKey input) (apiKey existing))
                        (nullish (u_modelMapping input) (modelMapping existing))
                        (nullish (u_isActive input) (isActive existing))
                        (nullish (u_priority input) (priority existing))
                        (nullishOpt (u_timeout input) (timeout existing))
                        (nullishOpt (u_description input) (description existing))
                        (nullishOpt (u_customCaCert input) (customCaCert existing))
                        (nullishOpt (u_allowInternalUrls input) (allowInternalUrls existing))
                        (nullishOpt (u_rateLimitRpm input) (rateLimitRpm existing))
                        (lastConnectionTest existing)
                        (createdAt existing)
                        now
                  in (Inr updated, updateGlobalSettings (profiles[index := updated]) st))"

subsection \<open>Connection test\<close>

text \<open>Decimal rendering of a number in a template string.\<close>

fun show_nat :: "nat \<Rightarrow> string" where
  "show_nat n =
     (if n < 10 then [''0123456789'' ! n]
      else show_nat (n div 10) @ [''0123456789'' ! (n mod 10)])"

declare show_nat.simps [simp del]

definition show_int :: "int \<Rightarrow> string" where
  "show_int i = (if i < 0 then CHR ''-'' # show_nat (nat (- i)) else show_nat (nat i))"

text \<open>\<open>s.replace(/\/+$/, '')\<close>: the string without its trailing slashes.\<close>

definition stripTrailingSlashes :: "string \<Rightarrow> string" where
  "stripTrailingSlashes s = rev (dropWhile (\<lambda>c. c = CHR ''/'') (rev s))"

text \<open>
  \<open>fetch\<close> is a parameter of the model: given the request, it returns the response or
  throws. Of a response the test reads the status, the status text, the body as text
  (\<open>None\<close> when \<open>response.text()\<close> rejects) and the model ids of the body as JSON
  (\<open>JsonThrows\<close> when \<open>response.json()\<close> rejects or an entry has no \<open>id\<close> to read,
  \<open>JsonData None\<close> when the body has no \<open>data\<close> array). \<open>response.ok\<close> is the platform's:
  a status from 200 to 299. A thrown value is an \<open>Error\<close> with a name and a message, or
  another value, given by its rendering \<open>String(error)\<close>.
\<close>

datatype Request = Request
  (requestMethod: string)
  (requestUrl: string)
  (requestHeaders: "(string \<times> string) list")
  (requestBody: "string option")

datatype JsonModels = JsonThrows | JsonData "string list option"

datatype Response = Response
  (status: nat)
  (statusText: string)
  (bodyText: "string option")
  (bodyJson: JsonModels)

datatype Thrown = ThrownError string string | ThrownValue string

definition ok :: "Response \<Rightarrow> bool" where
  "ok response = (200 \<le> status response \<and> status response \<le> 299)"

definition authFailed :: string where
  "authFailed = ''Authentication failed. Please check your API key.''"

definition minimalMessagesBody :: string where
  \<open>minimalMessagesBody =
     ''{"model":"claude-3-haiku-20240307","max_tokens":1,"messages":[{"role":"user","content":"test"}]}''\<close>

text \<open>The request of the test: a minimal \<open>POST /v1/messages\<close>, or \<open>GET /v1/models\<close>.\<close>

definition connectionTestRequest :: "ProviderProfile \<Rightarrow> Request" where
  "connectionTestRequest profile =
     (let base = stripTrailingSlashes (baseUrl profile)
      in if profileType profile = AnthropicCompatible
         then Request ''POST'' (base @ ''/v1/messages'')
                [(''Content-Type'', ''application/json''),
                 (''x-api-key'', apiKey profile),
                 (''anthropic-version'', ''2023-06-01'')]
                (Some minimalMessagesBody)
         else Request ''GET'' (base @ ''/v1/models'')
                [(''Authorization'', ''Bearer '' @ apiKey profile)]
                None)"

text \<open>The fall-through after both branches: an unexpected response.\<close>

definition unexpectedResponse :: "Response \<Rightarrow> string" where
  "unexpectedResponse response =
     (let errorText = nullish (bodyText response) []
      in ''Unexpected response: '' @ show_nat (status response) @ '' '' @ statusText response @
         (if errorText \<noteq> [] then '' - '' @ take 200 errorText else []))"

text \<open>
  \<open>testProfileConnection\<close>. \<open>startTime\<close> and \<open>endTime\<close> are the values of \<open>Date.now()\<close>
  at the start and at the \<open>return\<close> taken, \<open>now\<close> is \<open>new Date().toISOString()\<close> there.
\<close>

definition testProfileConnection ::
  "(Request \<Rightarrow> Thrown + Response) \<Rightarrow> int \<Rightarrow> int \<Rightarrow> string \<Rightarrow> ProviderProfile \<Rightarrow> ConnectionTestResult" where
  "testProfileConnection fetch startTime endTime now profile =
     (let timeoutMs = nullish (timeout profile) DEFAULT_PROVIDER_TIMEOUT
      in case fetch (connectionTestRequest profile) of
           Inl (ThrownError name msg) \<Rightarrow>
             if name = ''AbortError''
             then ConnectionTestResult False (Some (endTime - startTime))
                    (Some (''Connection timeout after '' @ show_int timeoutMs @ ''ms'')) None now
             else ConnectionTestResult False (Some (endTime - startTime)) (Some msg) None now
         | Inl (ThrownValue rendering) \<Rightarrow>
             ConnectionTestResult False (Some (endTime - startTime)) (Some rendering) None now
         | Inr response \<Rightarrow>
             if profileType profile = AnthropicCompatible then
               if status response = 401 \<or> status response = 403
               then ConnectionTestResult False (Some (endTime - startTime)) (Some authFailed) None now
               else if ok response \<or> status response = 400 \<or> status response = 404
               then ConnectionTestResult True (Some (endTime - startTime)) None None now
               else ConnectionTestResult False (Some (endTime - startTime))
                      (Some (unexpectedResponse response)) None now
             else
               if status response = 401 \<or> status response = 403
               then ConnectionTestResult False (Some (endTime - startTime)) (Some authFailed) None now
               else if ok response
               then ConnectionTestResult True (Some (endTime - startTime)) None
                      (case bodyJson response of JsonThrows \<Rightarrow> None | JsonData ids \<Rightarrow> ids) now
               else ConnectionTestResult False (Some (endTime - startTime))
                      (Some (unexpectedResponse response)) None now)"

section \<open>Provider factory (apps/server/src/providers/provider-factory.ts)\<close>

text \<open>
  A provider instance is one of the two proxy providers, built from a profile, or an
  instance of a provider class registered with the factory: \<open>ClaudeProvider\<close> and
  \<open>CursorProvider\<close>, which the module registers itself, or another class, given by a label.
\<close>

datatype BaseProvider =
    AnthropicProxyProvider ProviderProfile
  | OpenAIProxyProvider ProviderProfile
  | ClaudeProvider
  | CursorProvider
  | OtherProvider string

text \<open>
  A registration. The field \<open>factory\<close> is the instance that the factory function
  \<open>() => BaseProvider\<close> constructs; \<open>priority\<close> of the source is \<open>registrationPriority\<close>.
\<close>

datatype ProviderRegistration = ProviderRegistration
  (factory: BaseProvider)
  (aliases: "string list option")
  (canHandleModel: "(string \<Rightarrow> bool) option")
  (registrationPriority: "int option")

text \<open>
  The registry is a JavaScript \<open>Map\<close>: an association list in insertion order, in which
  \<open>set\<close> replaces the value of a key already there and appends a new key.
\<close>

type_synonym registry = "(string \<times> ProviderRegistration) list"

definition registerProvider :: "string \<Rightarrow> ProviderRegistration \<Rightarrow> registry \<Rightarrow> registry" where
  "registerProvider n registration reg = AList.update (toLowerCase n) registration reg"

text \<open>
  The registrations the module makes when it is loaded. \<open>isCursorModel\<close> is imported
  from \<open>@automaker/types\<close> and is not among the sources: a parameter.
\<close>

definition claudeCanHandleModel :: "string \<Rightarrow> bool" where
  "claudeCanHandleModel m =
     (startsWith m ''claude-'' \<or> list_ex (\<lambda>n. str_includes m n) [''opus'', ''sonnet'', ''haiku''])"

definition moduleRegistry :: "(string \<Rightarrow> bool) \<Rightarrow> registry" where
  "moduleRegistry isCursorModel =
     registerProvider ''cursor''
       (ProviderRegistration CursorProvider None (Some (\<lambda>m. isCursorModel m)) (Some 10))
       (registerProvider ''claude''
          (ProviderRegistration ClaudeProvider (Some [''anthropic'']) (Some claudeCanHandleModel) (Some 0))
          [])"

text \<open>The registry after the module is loaded and further providers have registered.\<close>

definition registryAfter :: "(string \<Rightarrow> bool) \<Rightarrow> (string \<times> ProviderRegistration) list \<Rightarrow> registry" where
  "registryAfter isCursorModel calls =
     foldl (\<lambda>reg (n, registration). registerProvider n registration reg) (moduleRegistry isCursorModel) calls"

text \<open>
  \<open>getProviderNameForModel\<close>. \<open>Array.prototype.sort\<close> is stable; with the comparator
  \<open>(b.priority ?? 0) - (a.priority ?? 0)\<close> it sorts by descending priority, which is the
  stable sort by ascending negated priority. The two \<open>for\<close> loops follow.
\<close>

definition sortedRegistrations :: "registry \<Rightarrow> registry" where
  "sortedRegistrations reg = sort_key (\<lambda>(n, r). - nullish (registrationPriority r) 0) reg"

definition handles :: "ProviderRegistration \<Rightarrow> string \<Rightarrow> bool" where
  "handles r m = (case canHandleModel r of Some f \<Rightarrow> f m | None \<Rightarrow> False)"

fun firstHandler :: "registry \<Rightarrow> string \<Rightarrow> string option" where
  "firstHandler [] lowerModel = None"
| "firstHandler ((n, r) # rest) lowerModel =
     (if handles r lowerModel then Some n else firstHandler rest lowerModel)"

fun firstPrefix :: "registry \<Rightarrow> string \<Rightarrow> string option" where
  "firstPrefix [] lowerModel = None"
| "firstPrefix ((n, r) # rest) lowerModel =
     (if startsWith lowerModel (n @ ''-'') then Some n else firstPrefix rest lowerModel)"

definition getProviderNameForModel :: "registry \<Rightarrow> string \<Rightarrow> string" where
  "getProviderNameForModel reg model =
     (let lowerModel = toLowerCase model;
          registrations = sortedRegistrations reg
      in case firstHandler registrations lowerModel of
           Some n \<Rightarrow> n
         | None \<Rightarrow>
             (case firstPrefix registrations lowerModel of
                Some n \<Rightarrow> n
              | None \<Rightarrow> ''claude''))"

text \<open>\<open>getProviderByName\<close>: the direct lookup, then the loop over the aliases.\<close>

fun firstAlias :: "registry \<Rightarrow> string \<Rightarrow> BaseProvider option" where
  "firstAlias [] lowerName = None"
| "firstAlias ((n, r) # rest) lowerName =
     (if (case aliases r of Some as \<Rightarrow> lowerName \<in> set as | None \<Rightarrow> False)
      then Some (factory r) else firstAlias rest lowerName)"

definition getProviderByName :: "registry \<Rightarrow> string \<Rightarrow> BaseProvider option" where
  "getProviderByName reg n =
     (let lowerName = toLowerCase n
      in case map_of reg lowerName of
           Some directReg \<Rightarrow> Some (factory directReg)
         | None \<Rightarrow> firstAlias reg lowerName)"

definition getProviderForModel :: "registry \<Rightarrow> string \<Rightarrow> exn + BaseProvider" where
  "getProviderForModel reg modelId =
     (case getProviderByName reg (getProviderNameForModel reg modelId) of
        Some provider \<Rightarrow> Inr provider
      | None \<Rightarrow>
          (case map_of reg ''claude'' of
             Some claudeReg \<Rightarrow> Inr (factory claudeReg)
           | None \<Rightarrow> Inl (Error (''No provider found for model: '' @ modelId))))"

text \<open>
  \<open>createProviderFromProfile\<close>. The profile type has two values, so the final \<open>throw\<close>
  of the source is not reached.
\<close>

definition createProviderFromProfile :: "ProviderProfile \<Rightarrow> BaseProvider" where
  "createProviderFromProfile profile =
     (if profileType profile = AnthropicCompatible then AnthropicProxyProvider profile
      else OpenAIProxyProvider profile)"

definition getFallbackProviders :: "registry \<Rightarrow> string \<Rightarrow> ProviderProfile list \<Rightarrow> exn + BaseProvider list" where
  "getFallbackProviders reg modelId profiles =
     (let lowerModel = toLowerCase modelId;
          affinity =
            (if startsWith lowerModel ''claude-''
                \<or> list_ex (\<lambda>n. str_includes lowerModel n) [''opus'', ''sonnet'', ''haiku'']
             then Some AnthropicCompatible
             else if startsWith lowerModel ''gpt-'' \<or> startsWith lowerModel ''o1''
                \<or> startsWith lowerModel ''o3''
             then Some OpenAICompatible
             else None);
          providers =
            (case affinity of
               Some t \<Rightarrow> map createProviderFromProfile (filter (\<lambda>p. profileType p = t \<and> isActive p) profiles)
             | None \<Rightarrow> [])
      in case getProviderForModel reg modelId of
           Inl e \<Rightarrow> Inl e
         | Inr standardProvider \<Rightarrow> Inr (providers @ [standardProvider]))"

subsection \<open>Execution with fallback\<close>

text \<open>
  \<open>getName()\<close> of the two proxy providers is in the sources; \<open>nameOf\<close> gives it for
  the other provider classes.
\<close>

definition getName :: "(BaseProvider \<Rightarrow> string) \<Rightarrow> BaseProvider \<Rightarrow> string" where
  "getName nameOf provider =
     (case provider of
        AnthropicProxyProvider profile \<Rightarrow> ''anthropic-proxy:'' @ profileName profile
      | OpenAIProxyProvider profile \<Rightarrow> ''openai-proxy:'' @ profileName profile
      | _ \<Rightarrow> nameOf provider)"

text \<open>The log: the entries written by \<open>logger.debug\<close> and \<open>logger.warn\<close>, in order.\<close>

datatype LogLevel = LogDebug | LogWarn

text \<open>
  The operation may throw any JavaScript value, and the \<open>catch\<close> takes it whatever it
  is (\<open>lastError = error as Error\<close> is a cast, not a test). The function does two things
  with the value \<open>v\<close> it caught: it evaluates \<open>${v.message}\<close> for the warning, and it
  tests \<open>v\<close> for truth after the loop. So a value is \<open>null\<close>, \<open>undefined\<close>, or another
  value, given by its truth (\<open>false\<close>, \<open>0\<close>, \<open>NaN\<close> and the empty string are not true), a
  description that tells it from the other values, and what evaluating \<open>${v.message}\<close>
  does: it gives a string (\<open>undefined\<close> for a value with no \<open>message\<close>), or it throws a
  value in its turn, as an accessor may, or the conversion to a string.
\<close>

datatype JsValue = JsNull | JsUndefined | JsOther bool string "JsValue + string"

fun isTruthy :: "JsValue \<Rightarrow> bool" where
  "isTruthy JsNull = False"
| "isTruthy JsUndefined = False"
| "isTruthy (JsOther truthy label messageOutcome) = truthy"

text \<open>
  \<open>new Error(message)\<close> and the other error classes: objects, so true, whose \<open>message\<close> is
  the string given. \<open>thrownError\<close> is the value of an exception of the other functions
  of the model.
\<close>

definition newError :: "string \<Rightarrow> string \<Rightarrow> JsValue" where
  "newError className m = JsOther True (className @ '': '' @ m) (Inr m)"

definition thrownError :: "exn \<Rightarrow> JsValue" where
  "thrownError e = (case e of Error m \<Rightarrow> newError ''Error'' m)"

text \<open>
  The evaluation of \<open>${v.message}\<close>: the text, or the value thrown. Reading a property of
  \<open>null\<close> or \<open>undefined\<close> throws a \<open>TypeError\<close> (with the message of Node.js).
\<close>

definition messageTypeError :: "string \<Rightarrow> JsValue" where
  "messageTypeError v =
     newError ''TypeError''
       (''Cannot read properties of '' @ v @ '' (reading '' @ [CHR 0x27] @ ''message'' @ [CHR 0x27] @ '')'')"

fun messageText :: "JsValue \<Rightarrow> JsValue + string" where
  "messageText JsNull = Inl (messageTypeError ''null'')"
| "messageText JsUndefined = Inl (messageTypeError ''undefined'')"
| "messageText (JsOther truthy label messageOutcome) = messageOutcome"

definition debugEntry :: "(BaseProvider \<Rightarrow> string) \<Rightarrow> nat \<Rightarrow> nat \<Rightarrow> BaseProvider \<Rightarrow> LogLevel \<times> string" where
  "debugEntry nameOf n i provider =
     (LogDebug, ''Attempting provider '' @ show_nat (i + 1) @ ''/'' @ show_nat n @ '': '' @ getName nameOf provider)"

definition warnEntry :: "(BaseProvider \<Rightarrow> string) \<Rightarrow> nat \<Rightarrow> nat \<Rightarrow> BaseProvider \<Rightarrow> string \<Rightarrow> LogLevel \<times> string" where
  "warnEntry nameOf n i provider failure =
     (LogWarn, ''Provider '' @ getName nameOf provider @ '' failed: '' @ failure @ ''. '' @
        (if i < n - 1 then ''Trying next provider...'' else ''No more fallbacks.''))"

text \<open>
  The executor is the caller's function: it may do anything, so it is a function of the
  provider and of the state \<open>'w\<close> of the world, which returns the result, or the value it
  throws, and the new state. The loop \<open>for (let i = 0; i < providers.length; i++)\<close> runs
  over the providers from index \<open>i\<close> on; \<open>n\<close> is \<open>providers.length\<close>. It ends in one of
  three ways: the \<open>return\<close> in the \<open>try\<close>; a value thrown out of the \<open>catch\<close> block,
  by the evaluation of \<open>${lastError.message}\<close> for the warning; or the end of the chain,
  with the last value caught (\<open>None\<close> for the initial \<open>null\<close>).
\<close>

datatype 'a LoopOutcome = Returned 'a | Escaped JsValue | ChainEnded "JsValue option"

fun tryProviders ::
  "(BaseProvider \<Rightarrow> string) \<Rightarrow> (BaseProvider \<Rightarrow> 'w \<Rightarrow> (JsValue + 'a) \<times> 'w) \<Rightarrow> nat \<Rightarrow> nat \<Rightarrow> BaseProvider list
     \<Rightarrow> JsValue option \<Rightarrow> 'w \<Rightarrow> (LogLevel \<times> string) list
     \<Rightarrow> 'a LoopOutcome \<times> 'w \<times> (LogLevel \<times> string) list" where
  "tryProviders nameOf executor n i [] lastError w lg = (ChainEnded lastError, w, lg)"
| "tryProviders nameOf executor n i (provider # rest) lastError w lg =
     (case executor provider w of
        (Inr r, w') \<Rightarrow> (Returned r, w', lg @ [debugEntry nameOf n i provider])
      | (Inl thrown, w') \<Rightarrow>
          (case messageText thrown of
             Inl raised \<Rightarrow> (Escaped raised, w', lg @ [debugEntry nameOf n i provider])
           | Inr failure \<Rightarrow>
               tryProviders nameOf executor n (Suc i) rest (Some thrown) w'
                 (lg @ [debugEntry nameOf n i provider, warnEntry nameOf n i provider failure])))"

text \<open>
  \<open>executeWithFallback\<close>. After the loop, \<open>throw lastError || new Error(...)\<close> throws
  the last value caught when it is truthy, and the new error otherwise. The result is
  what the function returns, or the value it throws.
\<close>

definition executeWithFallback ::
  "(BaseProvider \<Rightarrow> string) \<Rightarrow> registry \<Rightarrow> string \<Rightarrow> ProviderProfile list
     \<Rightarrow> (BaseProvider \<Rightarrow> 'w \<Rightarrow> (JsValue + 'a) \<times> 'w) \<Rightarrow> 'w
     \<Rightarrow> (JsValue + 'a) \<times> 'w \<times> (LogLevel \<times> string) list" where
  "executeWithFallback nameOf reg modelId profiles executor w =
     (case getFallbackProviders reg modelId profiles of
        Inl e \<Rightarrow> (Inl (thrownError e), w, [])
      | Inr providers \<Rightarrow>
          (case tryProviders nameOf executor (length providers) 0 providers None w [] of
             (Returned r, w', lg) \<Rightarrow> (Inr r, w', lg)
           | (Escaped raised, w', lg) \<Rightarrow> (Inl raised, w', lg)
           | (ChainEnded lastError, w', lg) \<Rightarrow>
               (Inl (case lastError of
                       Some v \<Rightarrow>
                         if isTruthy v then v
                         else newError ''Error'' (''All providers failed for model: '' @ modelId)
                     | None \<Rightarrow> newError ''Error'' (''All providers failed for model: '' @ modelId)),
                w', lg)))"

text \<open>
  What the specification says of an execution, to compare the loop with: the candidates
  are invoked in order until the first success; each attempt is the candidate, its outcome
  and the state of the world after it. \<open>expectedLog\<close> is the log of such a run: an entry
  for every attempt, and after it an entry for its failure, with the message of the value
  thrown. \<open>messageReadable\<close> holds of an outcome that is a result, or a thrown value
  \<open>v\<close> for which \<open>${v.message}\<close> gives a string; \<open>truthyFailure\<close> of an outcome that is a
  result, or a thrown value that is true.
\<close>

fun attempts ::
  "(BaseProvider \<Rightarrow> 'w \<Rightarrow> (JsValue + 'a) \<times> 'w) \<Rightarrow> BaseProvider list \<Rightarrow> 'w
     \<Rightarrow> (BaseProvider \<times> (JsValue + 'a) \<times> 'w) list" where
  "attempts executor [] w = []"
| "attempts executor (provider # rest) w =
     (case executor provider w of
        (Inr r, w') \<Rightarrow> [(provider, Inr r, w')]
      | (Inl thrown, w') \<Rightarrow> (provider, Inl thrown, w') # attempts executor rest w')"

fun expectedLog ::
  "(BaseProvider \<Rightarrow> string) \<Rightarrow> nat \<Rightarrow> nat \<Rightarrow> (BaseProvider \<times> (JsValue + 'a) \<times> 'w) list
     \<Rightarrow> (LogLevel \<times> string) list" where
  "expectedLog nameOf n i [] = []"
| "expectedLog nameOf n i ((provider, outcome, w) # rest) =
     debugEntry nameOf n i provider #
     (case outcome of
        Inl thrown \<Rightarrow>
          (case messageText thrown of
             Inl raised \<Rightarrow> []
           | Inr failure \<Rightarrow> [warnEntry nameOf n i provider failure])
      | Inr r \<Rightarrow> []) @
     expectedLog nameOf n (Suc i) rest"

definition messageReadable :: "JsValue + 'a \<Rightarrow> bool" where
  "messageReadable outcome =
     (case outcome of Inl thrown \<Rightarrow> \<not> isl (messageText thrown) | Inr r \<Rightarrow> True)"

definition truthyFailure :: "JsValue + 'a \<Rightarrow> bool" where
  "truthyFailure outcome = (case outcome of Inl thrown \<Rightarrow> isTruthy thrown | Inr r \<Rightarrow> True)"

section \<open>OpenAI proxy provider (apps/server/src/providers/openai-proxy-provider.ts)\<close>

text \<open>
  The streaming chunk of the chat-completions API, as the interface
  \<open>OpenAIStreamChunk\<close> declares it. An optional or nullable field is an \<open>option\<close>; the
  optional \<open>function\<close> of a tool-call delta is flattened into its two optional fields.
\<close>

datatype ToolCallDelta = ToolCallDelta
  (td_index: nat)
  (td_id: "string option")
  (td_type: "string option")
  (td_function_name: "string option")
  (td_function_arguments: "string option")

datatype Delta = Delta
  (delta_role: "string option")
  (delta_content: "string option")
  (delta_tool_calls: "ToolCallDelta list option")

datatype Choice = Choice
  (choice_index: nat)
  (choice_delta: Delta)
  (finish_reason: "string option")

datatype OpenAIStreamChunk = OpenAIStreamChunk
  (chunk_id: string)
  (chunk_object: string)
  (chunk_created: int)
  (chunk_model: string)
  (chunk_choices: "Choice list")

text \<open>
  The messages the provider yields. The input of a tool call is the value
  \<open>JSON.parse\<close> gives for its arguments (of a type \<open>'j\<close> of JSON values) or, when that
  throws, the object \<open>{ raw: arguments }\<close>.
\<close>

datatype 'j ToolInput = ParsedInput 'j | RawInput string

datatype 'j ContentBlock = TextBlock string | ToolUseBlock string string "'j ToolInput"

datatype 'j ProviderMessage =
    AssistantMessage string "'j ContentBlock list"
  | ResultMessage string string

datatype ToolCall = ToolCall (tc_id: string) (tc_name: string) (tc_arguments: string)

text \<open>
  The state of the decoding loop: the accumulated text, the accumulated tool calls (a
  \<open>Map\<close> from index to call, in insertion order), the messages yielded so far and the
  warnings logged so far. The line buffer is kept beside it.
\<close>

datatype 'j DecoderState = DecoderState
  (accumulatedContent: string)
  (accumulatedToolCalls: "(nat \<times> ToolCall) list")
  (yielded: "'j ProviderMessage list")
  (warned: "string list")

text \<open>A string field is truthy when it is there and not empty.\<close>

definition truthy :: "string option \<Rightarrow> bool" where
  "truthy s = (case s of Some v \<Rightarrow> v \<noteq> [] | None \<Rightarrow> False)"

definition applyToolDelta :: "ToolCallDelta \<Rightarrow> (nat \<times> ToolCall) list \<Rightarrow> (nat \<times> ToolCall) list" where
  "applyToolDelta toolDelta calls =
     (let existing = (case map_of calls (td_index toolDelta) of Some c \<Rightarrow> c | None \<Rightarrow> ToolCall [] [] []);
          withId = (if truthy (td_id toolDelta) then nullish (td_id toolDelta) [] else tc_id existing);
          withName = (if truthy (td_function_name toolDelta)
                      then nullish (td_function_name toolDelta) [] else tc_name existing);
          withArguments = (if truthy (td_function_arguments toolDelta)
                      then tc_arguments existing @ nullish (td_function_arguments toolDelta) []
                      else tc_arguments existing)
      in AList.update (td_index toolDelta) (ToolCall withId withName withArguments) calls)"

definition toolCallMessages ::
  "(string \<Rightarrow> 'j option) \<Rightarrow> string \<Rightarrow> (nat \<times> ToolCall) list \<Rightarrow> 'j ProviderMessage list" where
  "toolCallMessages parseArguments sessionId calls =
     map (\<lambda>(ix, toolCall).
            AssistantMessage sessionId
              [ToolUseBlock (tc_name toolCall) (tc_id toolCall)
                 (case parseArguments (tc_arguments toolCall) of
                    Some v \<Rightarrow> ParsedInput v
                  | None \<Rightarrow> RawInput (tc_arguments toolCall))])
         (filter (\<lambda>(ix, toolCall). tc_id toolCall \<noteq> [] \<and> tc_name toolCall \<noteq> []) calls)"

text \<open>The body of the \<open>try\<close> for one parsed chunk: only the first choice is read.\<close>

definition processChunk ::
  "(string \<Rightarrow> 'j option) \<Rightarrow> string \<Rightarrow> OpenAIStreamChunk \<Rightarrow> 'j DecoderState \<Rightarrow> 'j DecoderState" where
  "processChunk parseArguments sessionId chunk st =
     (case chunk_choices chunk of
        [] \<Rightarrow> st
      | choice # others \<Rightarrow>
          let st1 =
                (if truthy (delta_content (choice_delta choice))
                 then DecoderState
                        (accumulatedContent st @ nullish (delta_content (choice_delta choice)) [])
                        (accumulatedToolCalls st)
                        (yielded st @
                           [AssistantMessage sessionId
                              [TextBlock (nullish (delta_content (choice_delta choice)) [])]])
                        (warned st)
                 else st);
              st2 =
                (case delta_tool_calls (choice_delta choice) of
                   Some deltas \<Rightarrow>
                     DecoderState (accumulatedContent st1)
                       (fold applyToolDelta deltas (accumulatedToolCalls st1))
                       (yielded st1) (warned st1)
                 | None \<Rightarrow> st1)
          in if finish_reason choice = Some ''tool_calls'' \<or> finish_reason choice = Some ''stop''
             then DecoderState (accumulatedContent st2) (accumulatedToolCalls st2)
                    (yielded st2 @ toolCallMessages parseArguments sessionId (accumulatedToolCalls st2))
                    (warned st2)
             else st2)"

text \<open>
  One line of the stream. \<open>parseChunk\<close> is \<open>JSON.parse\<close> on the payload of a data line,
  read as an \<open>OpenAIStreamChunk\<close>: a parameter of the model, \<open>None\<close> when it throws.
\<close>

definition processLine ::
  "(string \<Rightarrow> OpenAIStreamChunk option) \<Rightarrow> (string \<Rightarrow> 'j option) \<Rightarrow> string \<Rightarrow> string
     \<Rightarrow> 'j DecoderState \<Rightarrow> 'j DecoderState" where
  "processLine parseChunk parseArguments sessionId line st =
     (if startsWith line ''data: '' then
        (let payload = drop 6 line
         in if payload = ''[DONE]'' then st
            else (case parseChunk payload of
                    Some chunk \<Rightarrow> processChunk parseArguments sessionId chunk st
                  | None \<Rightarrow>
                      DecoderState (accumulatedContent st) (accumulatedToolCalls st) (yielded st)
                        (warned st @ [''Failed to parse SSE chunk: '' @ payload])))
      else st)"

text \<open>\<open>s.split('\n')\<close>: the pieces between the newlines, at least one.\<close>

fun splitLines :: "string \<Rightarrow> string list" where
  "splitLines [] = [[]]"
| "splitLines (c # cs) =
     (if c = CHR 0x0A then [] # splitLines cs
      else (case splitLines cs of [] \<Rightarrow> [[c]] | l # ls \<Rightarrow> (c # l) # ls))"

text \<open>
  One turn of the \<open>while\<close> loop, for one read from the body: the text is appended to the
  buffer, the buffer is split into lines, the last piece (the incomplete line) is the new
  buffer, and the lines before it are processed in order.
\<close>

definition feed ::
  "(string \<Rightarrow> OpenAIStreamChunk option) \<Rightarrow> (string \<Rightarrow> 'j option) \<Rightarrow> string
     \<Rightarrow> string \<times> 'j DecoderState \<Rightarrow> string \<Rightarrow> string \<times> 'j DecoderState" where
  "feed parseChunk parseArguments sessionId bs text =
     (let pieces = splitLines (fst bs @ text)
      in (last pieces, fold (processLine parseChunk parseArguments sessionId) (butlast pieces) (snd bs)))"

text \<open>
  The decoding of a response body received in the given reads, from the creation of the
  reader to the final result message. \<open>nowMs\<close> is the value of \<open>Date.now()\<close> in the
  session id. The result is the messages yielded and the warnings logged.
\<close>

definition decodeStream ::
  "(string \<Rightarrow> OpenAIStreamChunk option) \<Rightarrow> (string \<Rightarrow> 'j option) \<Rightarrow> int \<Rightarrow> string list
     \<Rightarrow> 'j ProviderMessage list \<times> string list" where
  "decodeStream parseChunk parseArguments nowMs reads =
     (let sessionId = ''openai-'' @ show_int nowMs;
          final = snd (foldl (feed parseChunk parseArguments sessionId) ([], DecoderState [] [] [] []) reads)
      in (yielded final @ [ResultMessage sessionId (accumulatedContent final)], warned final))"

section \<open>Example data\<close>

text \<open>Concrete profiles on which the theorems below are evaluated.\<close>

definition exampleProfile :: "string \<Rightarrow> ProviderProfileType \<Rightarrow> ModelMappingEntry list \<Rightarrow> ProviderProfile" where
  "exampleProfile n t mm =
     ProviderProfile ''p-1'' n t ''https://proxy.example.com'' ''sk-test'' mm True 1
       None None None None None None ''2026-01-01T00:00:00.000Z'' ''2026-01-01T00:00:00.000Z''"

definition goodMapping :: "ModelMappingEntry list" where
  "goodMapping =
     [ModelMappingEntry ''opus'' ''proxy-opus'', ModelMappingEntry ''sonnet'' ''proxy-sonnet'']"

definition sharedRemoteMapping :: "ModelMappingEntry list" where
  "sharedRemoteMapping =
     [ModelMappingEntry ''opus'' ''proxy-large'', ModelMappingEntry ''sonnet'' ''proxy-large'']"

definition caseCollidingMapping :: "ModelMappingEntry list" where
  "caseCollidingMapping =
     [ModelMappingEntry ''Opus'' ''proxy-a'', ModelMappingEntry ''opus'' ''proxy-b'']"

text \<open>A process environment with a secret outside the allowlist and an empty \<open>HOME\<close>.\<close>

definition exampleEnv :: "string \<Rightarrow> string \<rightharpoonup> string" where
  "exampleEnv secret = map_of [(''PATH'', ''/usr/bin''), (''HOME'', []), (''AWS_SECRET_ACCESS_KEY'', secret),
      (''ANTHROPIC_API_KEY'', secret), (''LANG'', ''C'')]"

text \<open>
  What the platform's URL parser returns on the literals used in the examples (every
  other string of the examples is not a URL).
\<close>

definition exampleURL :: "string \<Rightarrow> string + URL" where
  "exampleURL u =
     (if u = ''http://127.0.0.1:8080'' then Inr (URL ''http:'' ''127.0.0.1'')
      else if u = ''https://proxy.example.com'' then Inr (URL ''https:'' ''proxy.example.com'')
      else if u = ''https://api.example.org/'' then Inr (URL ''https:'' ''api.example.org'')
      else if u = ''ftp://127.0.0.1/pub'' then Inr (URL ''ftp:'' ''127.0.0.1'')
      else Inl ''Invalid URL'')"

definition exampleInput :: "string \<Rightarrow> bool option \<Rightarrow> int option \<Rightarrow> CreateProviderProfileInput" where
  "exampleInput url allow prio =
     CreateProviderProfileInput ''gateway'' AnthropicCompatible url ''sk-new'' None None prio None
       None None allow None"

definition exampleStore :: SettingsStore where
  "exampleStore = SettingsStore (Some [exampleProfile ''proxy'' AnthropicCompatible []]) 0"

text \<open>A store whose only profile has the priority \<open>2 ^ 53 = 9007199254740992\<close>.\<close>

definition largePriorityStore :: SettingsStore where
  "largePriorityStore =
     SettingsStore
       (Some [ProviderProfile ''p-1'' ''proxy'' AnthropicCompatible ''https://proxy.example.com'' ''sk-test''
                [] True 9007199254740992 None None None None None None
                ''2026-01-01T00:00:00.000Z'' ''2026-01-01T00:00:00.000Z''])
       0"

text \<open>An update of the stored profile \<open>p-1\<close> that gives only a \<open>baseUrl\<close>.\<close>

definition exampleUpdate :: "string \<Rightarrow> string option \<Rightarrow> bool option \<Rightarrow> UpdateProviderProfileInput" where
  "exampleUpdate i url allow =
     UpdateProviderProfileInput i None None url None None None None None None None allow None"

text \<open>An endpoint that answers every request with the given status.\<close>

definition answering :: "nat \<Rightarrow> string \<Rightarrow> Request \<Rightarrow> Thrown + Response" where
  "answering code txt request = Inr (Response code txt (Some ''oops'') (JsonData (Some [''gpt-4o''])))"

text \<open>An endpoint that answers every request with the given status and an empty body.\<close>

definition answeringEmpty :: "nat \<Rightarrow> string \<Rightarrow> Request \<Rightarrow> Thrown + Response" where
  "answeringEmpty code txt request = Inr (Response code txt (Some []) JsonThrows)"

text \<open>In the examples, \<open>isCursorModel\<close> accepts the model ids that start with \<open>cursor-\<close>.\<close>

definition exampleIsCursorModel :: "string \<Rightarrow> bool" where
  "exampleIsCursorModel m = startsWith m ''cursor-''"

definition exampleRegistry :: registry where
  "exampleRegistry = moduleRegistry exampleIsCursorModel"

text \<open>Two active profiles and an inactive one between them.\<close>

definition exampleProfiles :: "ProviderProfile list" where
  "exampleProfiles =
     [ProviderProfile ''p-1'' ''first'' AnthropicCompatible ''https://proxy.example.com'' ''sk-1'' [] True 3
        None None None None None None ''2026-01-01T00:00:00.000Z'' ''2026-01-01T00:00:00.000Z'',
      ProviderProfile ''p-2'' ''off'' AnthropicCompatible ''https://proxy.example.com'' ''sk-2'' [] False 2
        None None None None None None ''2026-01-01T00:00:00.000Z'' ''2026-01-01T00:00:00.000Z'',
      ProviderProfile ''p-3'' ''second'' AnthropicCompatible ''https://api.example.org/'' ''sk-3'' [] True 1
        None None None None None None ''2026-01-01T00:00:00.000Z'' ''2026-01-01T00:00:00.000Z'']"


text \<open>
  The names of the registered provider classes in the examples, and executors on a world
  that counts the invocations: one that throws an \<open>Error\<close> on every proxy provider and
  succeeds on the others, one that throws an \<open>Error\<close> on every provider, one that throws
  the empty string on every provider, and one that throws \<open>null\<close> on every proxy
  provider and succeeds on the others.
\<close>

definition exampleNameOf :: "BaseProvider \<Rightarrow> string" where
  "exampleNameOf provider =
     (case provider of ClaudeProvider \<Rightarrow> ''claude'' | CursorProvider \<Rightarrow> ''cursor''
      | OtherProvider n \<Rightarrow> n | _ \<Rightarrow> [])"

definition proxiesDown :: "BaseProvider \<Rightarrow> nat \<Rightarrow> (JsValue + string) \<times> nat" where
  "proxiesDown provider w =
     (case provider of
        AnthropicProxyProvider profile \<Rightarrow> (Inl (newError ''Error'' (''refused by '' @ profileName profile)), Suc w)
      | OpenAIProxyProvider profile \<Rightarrow> (Inl (newError ''Error'' (''refused by '' @ profileName profile)), Suc w)
      | _ \<Rightarrow> (Inr ''done'', Suc w))"

definition allDown :: "BaseProvider \<Rightarrow> nat \<Rightarrow> (JsValue + string) \<times> nat" where
  "allDown provider w =
     (case provider of
        AnthropicProxyProvider profile \<Rightarrow> (Inl (newError ''Error'' (''refused by '' @ profileName profile)), Suc w)
      | OpenAIProxyProvider profile \<Rightarrow> (Inl (newError ''Error'' (''refused by '' @ profileName profile)), Suc w)
      | _ \<Rightarrow> (Inl (newError ''Error'' ''overloaded''), Suc w))"

definition allThrowEmptyString :: "BaseProvider \<Rightarrow> nat \<Rightarrow> (JsValue + string) \<times> nat" where
  "allThrowEmptyString provider w = (Inl (JsOther False ''the empty string'' (Inr ''undefined'')), Suc w)"

definition proxiesThrowNull :: "BaseProvider \<Rightarrow> nat \<Rightarrow> (JsValue + string) \<times> nat" where
  "proxiesThrowNull provider w =
     (case provider of
        AnthropicProxyProvider profile \<Rightarrow> (Inl JsNull, Suc w)
      | OpenAIProxyProvider profile \<Rightarrow> (Inl JsNull, Suc w)
      | _ \<Rightarrow> (Inr ''done'', Suc w))"

text \<open>The stream of the specification's example: its data payload, the chunk it denotes, the body.\<close>

definition hiPayload :: string where
  \<open>hiPayload =
     ''{"id":"1","object":"x","created":0,"model":"m","choices":[{"index":0,"delta":{"content":"Hi"},"finish_reason":null}]}''\<close>

definition hiChunk :: OpenAIStreamChunk where
  "hiChunk = OpenAIStreamChunk ''1'' ''x'' 0 ''m'' [Choice 0 (Delta None (Some ''Hi'') None) None]"

definition hiBody :: string where
  "hiBody = ''data: '' @ hiPayload @ [CHR 0x0A, CHR 0x0A] @ ''data: [DONE]'' @ [CHR 0x0A, CHR 0x0A]"

text \<open>A JSON parser that knows this payload only, and one for tool arguments that knows none.\<close>

definition hiParser :: "string \<Rightarrow> OpenAIStreamChunk option" where
  "hiParser payload = (if payload = hiPayload then Some hiChunk else None)"

definition noArguments :: "string \<Rightarrow> unit option" where
  "noArguments a = None"

section \<open>Properties of the model mapper\<close>

lemma find_first_find: "find_first P xs = List.find P xs"
  by (induction xs) simp_all

lemma find_first_at:
  assumes "i < length xs" and "P (xs ! i)" and "\<forall>j<i. \<not> P (xs ! j)"
  shows "find_first P xs = Some (xs ! i)"
  unfolding find_first_find find_Some_iff using assms by blast

text \<open>
  C4 (as amended). When \<open>m\<close> is the \<open>localModel\<close> of an entry of the mapping, no earlier
  entry's \<open>localModel\<close> equals \<open>m\<close> up to letter case, and no earlier entry's
  \<open>remoteModel\<close> equals that entry's \<open>remoteModel\<close> up to letter case, mapping \<open>m\<close> to
  the remote name and back returns \<open>m\<close>. This holds whatever the case folding
  \<open>lowerCase\<close> is, so also for the one of the platform.
\<close>

theorem mapModel_roundtrip:
  assumes "i < length (modelMapping p)" and "localModel (modelMapping p ! i) = m"
    and "\<forall>j<i. lowerCase (localModel (modelMapping p ! j)) \<noteq> lowerCase m"
    and "\<forall>j<i. lowerCase (remoteModel (modelMapping p ! j))
            \<noteq> lowerCase (remoteModel (modelMapping p ! i))"
  shows "mapModelFromRemote lowerCase (mapModelToRemote lowerCase m p) p = m"
proof -
  have fwd: "find_first (\<lambda>x. lowerCase (localModel x) = lowerCase m) (modelMapping p)
      = Some (modelMapping p ! i)"
    using assms(1,2,3) by (intro find_first_at) simp_all
  have bwd: "find_first (\<lambda>x. lowerCase (remoteModel x) = lowerCase (remoteModel (modelMapping p ! i)))
      (modelMapping p) = Some (modelMapping p ! i)"
    using assms(1,4) by (intro find_first_at) simp_all
  show ?thesis
    by (simp add: mapModelToRemote_def mapModelFromRemote_def fwd bwd assms(2))
qed

theorem mapModel_roundtrip_witness:
  "mapModelFromRemote toLowerCase
     (mapModelToRemote toLowerCase ''sonnet'' (exampleProfile ''proxy'' OpenAICompatible goodMapping))
     (exampleProfile ''proxy'' OpenAICompatible goodMapping) = ''sonnet''"
  by (rule mapModel_roundtrip [of 1])
    (simp_all add: exampleProfile_def goodMapping_def toLowerCase_def toLowerChar_def)

text \<open>
  The round trip fails although \<open>m\<close> is the \<open>localModel\<close> of exactly one entry: when
  an earlier entry has the same \<open>remoteModel\<close> (\<open>sonnet\<close> comes back as \<open>opus\<close>), and
  when an earlier entry's \<open>localModel\<close> differs from \<open>m\<close> in letter case only (\<open>opus\<close>
  comes back as \<open>Opus\<close>). The names are ASCII, on which the platform's case folding is
  \<open>toLowerCase\<close>.
\<close>

theorem mapModel_roundtrip_counterexample:
  "length (filter (\<lambda>e. localModel e = ''sonnet'')
       (modelMapping (exampleProfile ''proxy'' OpenAICompatible sharedRemoteMapping))) = 1
   \<and> mapModelFromRemote toLowerCase
       (mapModelToRemote toLowerCase ''sonnet'' (exampleProfile ''proxy'' OpenAICompatible sharedRemoteMapping))
       (exampleProfile ''proxy'' OpenAICompatible sharedRemoteMapping) = ''opus''
   \<and> length (filter (\<lambda>e. localModel e = ''opus'')
       (modelMapping (exampleProfile ''proxy'' OpenAICompatible caseCollidingMapping))) = 1
   \<and> mapModelFromRemote toLowerCase
       (mapModelToRemote toLowerCase ''opus'' (exampleProfile ''proxy'' OpenAICompatible caseCollidingMapping))
       (exampleProfile ''proxy'' OpenAICompatible caseCollidingMapping) = ''Opus''"
  by (simp add: exampleProfile_def sharedRemoteMapping_def caseCollidingMapping_def
      mapModelToRemote_def mapModelFromRemote_def toLowerCase_def toLowerChar_def)

section \<open>Properties of the environment forwarded to the SDK\<close>

lemma copyAllowed_keys:
  "fst ` set (copyAllowed penv keys env) \<subseteq> fst ` set env \<union> set keys"
proof (induction keys arbitrary: env)
  case Nil
  then show ?case by simp
next
  case (Cons key keys)
  have "fst ` set (case penv key of None \<Rightarrow> env
        | Some v \<Rightarrow> if v \<noteq> [] then AList.update key v env else env)
      \<subseteq> insert key (fst ` set env)"
    by (simp add: AList.dom_update split: option.splits) blast
  with Cons.IH [of "case penv key of None \<Rightarrow> env
        | Some v \<Rightarrow> if v \<noteq> [] then AList.update key v env else env"]
  show ?case by auto
qed

lemma copyAllowed_value:
  "map_of (copyAllowed penv keys env) k = Some v \<Longrightarrow>
     map_of env k = Some v \<or> (k \<in> set keys \<and> penv k = Some v)"
proof (induction keys arbitrary: env)
  case Nil
  then show ?case by simp
next
  case (Cons key keys)
  let ?env' = "case penv key of None \<Rightarrow> env
        | Some w \<Rightarrow> if w \<noteq> [] then AList.update key w env else env"
  from Cons.prems have "map_of (copyAllowed penv keys ?env') k = Some v" by simp
  from Cons.IH [OF this] have "map_of ?env' k = Some v \<or> (k \<in> set keys \<and> penv k = Some v)" .
  then show ?case
    by (auto simp: AList.update_conv' split: option.splits if_splits)
qed

lemma copyAllowed_cong:
  "(\<forall>k \<in> set keys. penv k = penv' k) \<Longrightarrow> copyAllowed penv keys env = copyAllowed penv' keys env"
  by (induction keys arbitrary: env) simp_all

text \<open>
  C7. The environment forwarded to the SDK has only keys of the allowlist and the two
  overrides; the overrides carry the profile's \<open>baseUrl\<close> and \<open>apiKey\<close>; an allowlisted
  key is forwarded only with the value the process environment gives it; and two process
  environments that agree on the allowlisted variables give the same forwarded environment.
\<close>

theorem buildEnv_allowlist:
  "fst ` set (buildEnv penv profile) \<subseteq> set ALLOWED_ENV_VARS \<union> {''ANTHROPIC_BASE_URL'', ''ANTHROPIC_API_KEY''}
   \<and> map_of (buildEnv penv profile) ''ANTHROPIC_BASE_URL'' = Some (baseUrl profile)
   \<and> map_of (buildEnv penv profile) ''ANTHROPIC_API_KEY'' = Some (apiKey profile)
   \<and> (\<forall>k \<in> set ALLOWED_ENV_VARS. \<forall>v. map_of (buildEnv penv profile) k = Some v \<longrightarrow> penv k = Some v)
   \<and> ((\<forall>k \<in> set ALLOWED_ENV_VARS. penv k = penv' k) \<longrightarrow> buildEnv penv profile = buildEnv penv' profile)"
proof (intro conjI)
  show "fst ` set (buildEnv penv profile) \<subseteq> set ALLOWED_ENV_VARS \<union> {''ANTHROPIC_BASE_URL'', ''ANTHROPIC_API_KEY''}"
    using copyAllowed_keys [of penv ALLOWED_ENV_VARS "[]"]
    unfolding buildEnv_def AList.dom_update by auto
  show "map_of (buildEnv penv profile) ''ANTHROPIC_BASE_URL'' = Some (baseUrl profile)"
    by (simp add: buildEnv_def AList.update_conv')
  show "map_of (buildEnv penv profile) ''ANTHROPIC_API_KEY'' = Some (apiKey profile)"
    by (simp add: buildEnv_def AList.update_conv')
  show "\<forall>k \<in> set ALLOWED_ENV_VARS. \<forall>v. map_of (buildEnv penv profile) k = Some v \<longrightarrow> penv k = Some v"
  proof (intro ballI allI impI)
    fix k v
    assume k: "k \<in> set ALLOWED_ENV_VARS" and v: "map_of (buildEnv penv profile) k = Some v"
    from k have "k \<noteq> ''ANTHROPIC_BASE_URL''" "k \<noteq> ''ANTHROPIC_API_KEY''"
      by (auto simp: ALLOWED_ENV_VARS_def)
    with v have "map_of (copyAllowed penv ALLOWED_ENV_VARS []) k = Some v"
      by (simp add: buildEnv_def AList.update_conv')
    from copyAllowed_value [OF this] show "penv k = Some v" by simp
  qed
  show "(\<forall>k \<in> set ALLOWED_ENV_VARS. penv k = penv' k) \<longrightarrow> buildEnv penv profile = buildEnv penv' profile"
    using copyAllowed_cong [of ALLOWED_ENV_VARS penv penv' "[]"] by (simp add: buildEnv_def)
qed

theorem buildEnv_allowlist_witness:
  "buildEnv (exampleEnv ''s3cr3t'') (exampleProfile ''proxy'' AnthropicCompatible [])
     = buildEnv (exampleEnv ''other'') (exampleProfile ''proxy'' AnthropicCompatible [])
   \<and> buildEnv (exampleEnv ''s3cr3t'') (exampleProfile ''proxy'' AnthropicCompatible [])
     = [(''PATH'', ''/usr/bin''), (''LANG'', ''C''),
        (''ANTHROPIC_BASE_URL'', ''https://proxy.example.com''), (''ANTHROPIC_API_KEY'', ''sk-test'')]"
proof -
  have "\<forall>k \<in> set ALLOWED_ENV_VARS. exampleEnv ''s3cr3t'' k = exampleEnv ''other'' k"
    by (simp add: ALLOWED_ENV_VARS_def exampleEnv_def)
  with buildEnv_allowlist [of "exampleEnv ''s3cr3t''" "exampleProfile ''proxy'' AnthropicCompatible []" "exampleEnv ''other''"]
  have "buildEnv (exampleEnv ''s3cr3t'') (exampleProfile ''proxy'' AnthropicCompatible [])
     = buildEnv (exampleEnv ''other'') (exampleProfile ''proxy'' AnthropicCompatible [])" by blast
  moreover have "buildEnv (exampleEnv ''s3cr3t'') (exampleProfile ''proxy'' AnthropicCompatible [])
     = [(''PATH'', ''/usr/bin''), (''LANG'', ''C''),
        (''ANTHROPIC_BASE_URL'', ''https://proxy.example.com''), (''ANTHROPIC_API_KEY'', ''sk-test'')]"
    by (simp add: buildEnv_def ALLOWED_ENV_VARS_def exampleEnv_def exampleProfile_def)
  ultimately show ?thesis by simp
qed

section \<open>Properties of the SSRF guard\<close>

lemmas rx_defs = pattern_test_def rx_match_def lit_def seqs_def digit_def digits_def opt_def

lemma testPatterns_cases:
  "testPatterns ps h a = SsrfValidationResult True None None
   \<or> (a \<and> testPatterns ps h a = SsrfValidationResult True None (Some True)
        \<and> testPatterns ps h False = SsrfValidationResult False (Some (internalReason h)) None)
   \<or> (\<not> a \<and> testPatterns ps h a = SsrfValidationResult False (Some (internalReason h)) None
        \<and> testPatterns ps h True = SsrfValidationResult True None (Some True))"
  by (induction ps) auto

lemma testPatterns_rejected:
  "\<not> safe (testPatterns ps h False) \<Longrightarrow>
     testPatterns ps h False = SsrfValidationResult False (Some (internalReason h)) None
     \<and> testPatterns ps h True = SsrfValidationResult True None (Some True)"
  by (induction ps) auto

lemma internalReason_not_protocolReason: "internalReason h \<noteq> protocolReason"
  by (simp add: internalReason_def protocolReason_def)

lemma internalReason_not_invalid: "internalReason h \<noteq> ''Invalid URL: '' @ message"
  by (simp add: internalReason_def)

lemma protocolReason_not_invalid: "protocolReason \<noteq> ''Invalid URL: '' @ message"
  by (simp add: protocolReason_def)

lemma validate_parsed_http:
  "newURL u = Inr parsed \<Longrightarrow> protocol parsed = ''http:'' \<or> protocol parsed = ''https:'' \<Longrightarrow>
     validateBaseUrlSsrf newURL u a = testPatterns internalPatterns (toLowerCase (hostname parsed)) a"
  by (auto simp: validateBaseUrlSsrf_def)

lemma validate_parsed_other:
  "newURL u = Inr parsed \<Longrightarrow> \<not> (protocol parsed = ''http:'' \<or> protocol parsed = ''https:'') \<Longrightarrow>
     validateBaseUrlSsrf newURL u a = SsrfValidationResult False (Some protocolReason) None"
  by (auto simp: validateBaseUrlSsrf_def)

lemma validate_thrown:
  "newURL u = Inl message \<Longrightarrow>
     validateBaseUrlSsrf newURL u a = SsrfValidationResult False (Some (''Invalid URL: '' @ message)) None"
  by (simp add: validateBaseUrlSsrf_def)

text \<open>
  C5. The guard returns a result on every input: where the parser throws, the result
  is \<open>safe = false\<close> with the parser's message, with and without the bypass. A URL
  rejected without the bypass for its host name is accepted with it, marked
  \<open>bypassedByUser\<close>. A URL rejected for its scheme is rejected with the same result
  whatever the bypass flag.
\<close>

theorem validateBaseUrlSsrf_bypass:
  "(newURL u = Inl message \<longrightarrow>
      validateBaseUrlSsrf newURL u a = SsrfValidationResult False (Some (''Invalid URL: '' @ message)) None)
   \<and> (\<not> safe (validateBaseUrlSsrf newURL u False)
        \<and> reason (validateBaseUrlSsrf newURL u False) = Some (internalReason h) \<longrightarrow>
      validateBaseUrlSsrf newURL u True = SsrfValidationResult True None (Some True))
   \<and> (\<not> safe (validateBaseUrlSsrf newURL u False)
        \<and> reason (validateBaseUrlSsrf newURL u False) = Some protocolReason \<longrightarrow>
      validateBaseUrlSsrf newURL u True = validateBaseUrlSsrf newURL u False
      \<and> \<not> safe (validateBaseUrlSsrf newURL u True))"
proof (intro conjI impI)
  assume "newURL u = Inl message"
  then show "validateBaseUrlSsrf newURL u a = SsrfValidationResult False (Some (''Invalid URL: '' @ message)) None"
    by (rule validate_thrown)
next
  assume rej: "\<not> safe (validateBaseUrlSsrf newURL u False)
        \<and> reason (validateBaseUrlSsrf newURL u False) = Some (internalReason h)"
  show "validateBaseUrlSsrf newURL u True = SsrfValidationResult True None (Some True)"
  proof (cases "newURL u")
    case (Inl m)
    with rej show ?thesis
      using internalReason_not_invalid [of h m] by (simp add: validate_thrown)
  next
    case (Inr parsed)
    show ?thesis
    proof (cases "protocol parsed = ''http:'' \<or> protocol parsed = ''https:''")
      case False
      with rej Inr show ?thesis
        using internalReason_not_protocolReason [of h] by (simp add: validate_parsed_other)
    next
      case True
      with rej Inr have "\<not> safe (testPatterns internalPatterns (toLowerCase (hostname parsed)) False)"
        by (simp add: validate_parsed_http)
      from testPatterns_rejected [OF this] True Inr show ?thesis
        by (simp add: validate_parsed_http)
    qed
  qed
next
  assume rej: "\<not> safe (validateBaseUrlSsrf newURL u False)
        \<and> reason (validateBaseUrlSsrf newURL u False) = Some protocolReason"
  have "validateBaseUrlSsrf newURL u True = validateBaseUrlSsrf newURL u False"
  proof (cases "newURL u")
    case (Inl m)
    then show ?thesis by (simp add: validate_thrown)
  next
    case (Inr parsed)
    show ?thesis
    proof (cases "protocol parsed = ''http:'' \<or> protocol parsed = ''https:''")
      case False
      with Inr show ?thesis by (simp add: validate_parsed_other)
    next
      case True
      with rej Inr have ns: "\<not> safe (testPatterns internalPatterns (toLowerCase (hostname parsed)) False)"
        and r: "reason (testPatterns internalPatterns (toLowerCase (hostname parsed)) False) = Some protocolReason"
        by (simp_all add: validate_parsed_http)
      from testPatterns_rejected [OF ns] r show ?thesis
        using internalReason_not_protocolReason [of "toLowerCase (hostname parsed)"] by simp
    qed
  qed
  with rej show "validateBaseUrlSsrf newURL u True = validateBaseUrlSsrf newURL u False"
    and "\<not> safe (validateBaseUrlSsrf newURL u True)" by simp_all
qed

lemma validate_loopback_False:
  "validateBaseUrlSsrf exampleURL ''http://127.0.0.1:8080'' False
     = SsrfValidationResult False (Some (internalReason ''127.0.0.1'')) None"
  by (simp add: validateBaseUrlSsrf_def exampleURL_def internalPatterns_def rx_defs
      toLowerCase_def toLowerChar_def)

lemma validate_ftp_False:
  "validateBaseUrlSsrf exampleURL ''ftp://127.0.0.1/pub'' False
     = SsrfValidationResult False (Some protocolReason) None"
  by (simp add: validateBaseUrlSsrf_def exampleURL_def)

lemma validate_public:
  "validateBaseUrlSsrf exampleURL ''https://proxy.example.com'' a = SsrfValidationResult True None None"
  by (simp add: validateBaseUrlSsrf_def exampleURL_def internalPatterns_def rx_defs
      toLowerCase_def toLowerChar_def)

lemma validate_empty:
  "validateBaseUrlSsrf exampleURL [] a = SsrfValidationResult False (Some ''Invalid URL: Invalid URL'') None"
  by (simp add: validateBaseUrlSsrf_def exampleURL_def)

theorem validateBaseUrlSsrf_bypass_witness:
  "validateBaseUrlSsrf exampleURL ''http://127.0.0.1:8080'' True = SsrfValidationResult True None (Some True)
   \<and> validateBaseUrlSsrf exampleURL ''ftp://127.0.0.1/pub'' True = SsrfValidationResult False (Some protocolReason) None
   \<and> validateBaseUrlSsrf exampleURL ''not a url'' True
       = SsrfValidationResult False (Some ''Invalid URL: Invalid URL'') None"
proof -
  have "exampleURL ''not a url'' = Inl ''Invalid URL''" by (simp add: exampleURL_def)
  with validateBaseUrlSsrf_bypass [of exampleURL "''not a url''" "''Invalid URL''" True]
  have c: "validateBaseUrlSsrf exampleURL ''not a url'' True
       = SsrfValidationResult False (Some ''Invalid URL: Invalid URL'') None" by simp
  from validateBaseUrlSsrf_bypass [of exampleURL "''http://127.0.0.1:8080''" _ _ "''127.0.0.1''"]
  have a: "validateBaseUrlSsrf exampleURL ''http://127.0.0.1:8080'' True = SsrfValidationResult True None (Some True)"
    by (simp add: validate_loopback_False)
  from validateBaseUrlSsrf_bypass [of exampleURL "''ftp://127.0.0.1/pub''"]
  have b: "validateBaseUrlSsrf exampleURL ''ftp://127.0.0.1/pub'' True = SsrfValidationResult False (Some protocolReason) None"
    by (simp add: validate_ftp_False)
  from a b c show ?thesis by simp
qed

section \<open>Properties of the profile service\<close>

lemma maxPriority_ge: "q \<in> set profiles \<Longrightarrow> priority q \<le> maxPriority profiles"
proof -
  assume q: "q \<in> set profiles"
  then obtain x xs where m: "map priority profiles = x # xs" by (cases profiles) auto
  have "fold max xs x = Max (set (x # xs))" by (rule Max.set_eq_fold [symmetric])
  moreover from q m have "priority q \<in> set (x # xs)" by (metis image_eqI list.set_map)
  ultimately show ?thesis by (simp add: maxPriority_def m)
qed

lemma maxPriority_Max:
  "profiles \<noteq> [] \<Longrightarrow> maxPriority profiles = Max (priority ` set profiles)"
proof -
  assume "profiles \<noteq> []"
  then obtain x xs where m: "map priority profiles = x # xs" by (cases profiles) auto
  have "fold max xs x = Max (set (x # xs))" by (rule Max.set_eq_fold [symmetric])
  also have "set (x # xs) = priority ` set profiles" by (metis m list.set_map)
  finally show ?thesis by (simp add: maxPriority_def m)
qed

lemma roundToDouble_exact: "\<bar>n\<bar> \<le> 2 ^ 53 \<Longrightarrow> roundToDouble n = n"
  by (simp add: roundToDouble_def)

lemma jsAdd_one_exact: "\<bar>x\<bar> < 2 ^ 53 \<Longrightarrow> jsAdd x 1 = x + 1"
  unfolding jsAdd_def by (rule roundToDouble_exact) simp

text \<open>
  When the guard rejects the input's \<open>baseUrl\<close> (with the input's
  \<open>allowInternalUrls\<close>), \<open>createProfile\<close> throws and the store is as before: no profile
  added, \<open>updateGlobalSettings\<close> not called. Otherwise it calls \<open>updateGlobalSettings\<close>
  once, with the stored list and one new profile at its end; the new profile has the
  generated id (which is not the id of a stored profile if the generator did not return
  one), is active unless the input says otherwise, has the timeout 30000 unless the input
  gives one, and, when the input gives no priority, has the priority that \<open>+\<close> gives for
  the maximum of the stored priorities and 1. Where that maximum is below \<open>2 ^ 53\<close> in
  magnitude, this is one more than the maximum (1 when no profile is stored), above
  every stored profile's priority.
\<close>

theorem createProfile_atomic:
  "(\<not> safe (validateBaseUrlSsrf newURL (c_baseUrl input) (nullish (c_allowInternalUrls input) False)) \<longrightarrow>
      (\<exists>m. createProfile newURL uuid now input st = (Inl (Error m), st)))
   \<and> (safe (validateBaseUrlSsrf newURL (c_baseUrl input) (nullish (c_allowInternalUrls input) False)) \<longrightarrow>
      (\<exists>p. createProfile newURL uuid now input st
             = (Inr p, SettingsStore (Some (storedProfiles st @ [p])) (Suc (updateCalls st)))
           \<and> profileId p = uuid
           \<and> (uuid \<notin> profileId ` set (storedProfiles st) \<longrightarrow>
                 (\<forall>q \<in> set (storedProfiles st). profileId q \<noteq> profileId p))
           \<and> baseUrl p = c_baseUrl input
           \<and> isActive p = nullish (c_isActive input) True
           \<and> timeout p = Some (nullish (c_timeout input) 30000)
           \<and> (c_priority input = None \<longrightarrow>
                 priority p = jsAdd (maxPriority (storedProfiles st)) 1)
           \<and> (c_priority input = None \<and> \<bar>maxPriority (storedProfiles st)\<bar> < 2 ^ 53 \<longrightarrow>
                 priority p = (if storedProfiles st = [] then 1
                               else Max (priority ` set (storedProfiles st)) + 1)
                 \<and> (\<forall>q \<in> set (storedProfiles st). priority q < priority p))))"
proof (intro conjI impI)
  assume "\<not> safe (validateBaseUrlSsrf newURL (c_baseUrl input) (nullish (c_allowInternalUrls input) False))"
  then show "\<exists>m. createProfile newURL uuid now input st = (Inl (Error m), st)"
    by (simp add: createProfile_def Let_def)
next
  assume ok: "safe (validateBaseUrlSsrf newURL (c_baseUrl input) (nullish (c_allowInternalUrls input) False))"
  let ?p = "ProviderProfile uuid (c_name input) (c_type input) (c_baseUrl input) (c_apiKey input)
       (nullish (c_modelMapping input) []) (nullish (c_isActive input) True)
       (nullish (c_priority input) (jsAdd (maxPriority (storedProfiles st)) 1))
       (Some (nullish (c_timeout input) DEFAULT_PROVIDER_TIMEOUT))
       (c_description input) (c_customCaCert input)
       (Some (nullish (c_allowInternalUrls input) False))
       (Some (nullish (c_rateLimitRpm input) 0)) None now now"
  have run: "createProfile newURL uuid now input st
      = (Inr ?p, SettingsStore (Some (storedProfiles st @ [?p])) (Suc (updateCalls st)))"
    using ok by (simp add: createProfile_def Let_def updateGlobalSettings_def)
  have fresh: "uuid \<notin> profileId ` set (storedProfiles st) \<longrightarrow>
      (\<forall>q \<in> set (storedProfiles st). profileId q \<noteq> profileId ?p)"
    by auto
  have sum: "c_priority input = None \<longrightarrow> priority ?p = jsAdd (maxPriority (storedProfiles st)) 1"
    by (simp add: nullish_def)
  have prio: "c_priority input = None \<and> \<bar>maxPriority (storedProfiles st)\<bar> < 2 ^ 53 \<longrightarrow>
      priority ?p = (if storedProfiles st = [] then 1 else Max (priority ` set (storedProfiles st)) + 1)
      \<and> (\<forall>q \<in> set (storedProfiles st). priority q < priority ?p)"
  proof
    assume n: "c_priority input = None \<and> \<bar>maxPriority (storedProfiles st)\<bar> < 2 ^ 53"
    then have a: "priority ?p = maxPriority (storedProfiles st) + 1"
      by (simp add: nullish_def jsAdd_one_exact)
    have b: "maxPriority (storedProfiles st) + 1
        = (if storedProfiles st = [] then 1 else Max (priority ` set (storedProfiles st)) + 1)"
      by (simp add: maxPriority_Max) (simp add: maxPriority_def)
    have c: "\<forall>q \<in> set (storedProfiles st). priority q < maxPriority (storedProfiles st) + 1"
      using maxPriority_ge by fastforce
    from a b c show "priority ?p = (if storedProfiles st = [] then 1 else Max (priority ` set (storedProfiles st)) + 1)
      \<and> (\<forall>q \<in> set (storedProfiles st). priority q < priority ?p)" by simp
  qed
  show "\<exists>p. createProfile newURL uuid now input st
             = (Inr p, SettingsStore (Some (storedProfiles st @ [p])) (Suc (updateCalls st)))
           \<and> profileId p = uuid
           \<and> (uuid \<notin> profileId ` set (storedProfiles st) \<longrightarrow>
                 (\<forall>q \<in> set (storedProfiles st). profileId q \<noteq> profileId p))
           \<and> baseUrl p = c_baseUrl input
           \<and> isActive p = nullish (c_isActive input) True
           \<and> timeout p = Some (nullish (c_timeout input) 30000)
           \<and> (c_priority input = None \<longrightarrow>
                 priority p = jsAdd (maxPriority (storedProfiles st)) 1)
           \<and> (c_priority input = None \<and> \<bar>maxPriority (storedProfiles st)\<bar> < 2 ^ 53 \<longrightarrow>
                 priority p = (if storedProfiles st = [] then 1
                               else Max (priority ` set (storedProfiles st)) + 1)
                 \<and> (\<forall>q \<in> set (storedProfiles st). priority q < priority p))"
    apply (rule exI [of _ ?p])
    apply (intro conjI)
           apply (rule run)
          apply simp
         apply (rule fresh)
        apply simp
       apply simp
      apply (simp add: DEFAULT_PROVIDER_TIMEOUT_def)
     apply (rule sum)
    apply (rule prio)
    done
qed

text \<open>On the example store: a rejected input leaves it as it is, an accepted one adds a profile.\<close>

lemma createProfile_example:
  "createProfile exampleURL ''uuid-2'' ''2026-02-02T00:00:00.000Z''
       (exampleInput ''http://127.0.0.1:8080'' None None) exampleStore
     = (Inl (Error (''Invalid base URL: '' @ internalReason ''127.0.0.1'')), exampleStore)"
  "createProfile exampleURL ''uuid-2'' ''2026-02-02T00:00:00.000Z''
       (exampleInput ''https://proxy.example.com'' None None) exampleStore
     = (Inr (ProviderProfile ''uuid-2'' ''gateway'' AnthropicCompatible ''https://proxy.example.com''
               ''sk-new'' [] True 2 (Some 30000) None None (Some False) (Some 0) None
               ''2026-02-02T00:00:00.000Z'' ''2026-02-02T00:00:00.000Z''),
        SettingsStore
          (Some [exampleProfile ''proxy'' AnthropicCompatible [],
                 ProviderProfile ''uuid-2'' ''gateway'' AnthropicCompatible ''https://proxy.example.com''
                   ''sk-new'' [] True 2 (Some 30000) None None (Some False) (Some 0) None
                   ''2026-02-02T00:00:00.000Z'' ''2026-02-02T00:00:00.000Z''])
          1)"
  by (simp_all add: createProfile_def Let_def exampleInput_def nullish_def validate_loopback_False
      validate_public exampleStore_def storedProfiles_def updateGlobalSettings_def maxPriority_def
      exampleProfile_def jsAdd_def roundToDouble_def DEFAULT_PROVIDER_TIMEOUT_def)

lemma bitLength_bounds: "2 ^ k \<le> a \<Longrightarrow> a < 2 ^ Suc k \<Longrightarrow> bitLength a = Suc k"
proof (induction k arbitrary: a)
  case 0
  then have "a = 1" by simp
  then show ?case by (simp add: bitLength.simps [of "Suc 0"] bitLength.simps [of 0])
next
  case (Suc k)
  from Suc.prems have pos: "a \<noteq> 0" by auto
  from Suc.prems have "2 ^ k \<le> a div 2" "a div 2 < 2 ^ Suc k" by auto
  from Suc.IH [OF this] pos show ?case by (subst bitLength.simps) simp
qed

lemma bitLength_example: "bitLength 9007199254740993 = 54"
proof -
  have "bitLength 9007199254740993 = Suc 53"
    by (rule bitLength_bounds) simp_all
  then show ?thesis by simp
qed

lemma jsAdd_example: "jsAdd 9007199254740992 1 = 9007199254740992"
  by (simp add: jsAdd_def roundToDouble_def bitLength_example Let_def)

text \<open>
  C9. The comment in \<open>createProfile\<close> says of the priority it computes: higher than any
  existing. With a stored profile of priority \<open>2 ^ 53 = 9007199254740992\<close> and an input
  that the guard accepts and that gives no priority, the new profile is appended with the
  priority 9007199254740992 again, the double nearest to the sum: not above the stored
  profile's, and not one more than the maximum.
\<close>

theorem createProfile_priority_not_above:
  "safe (validateBaseUrlSsrf exampleURL ''https://proxy.example.com'' False)
   \<and> map priority (storedProfiles largePriorityStore) = [9007199254740992]
   \<and> map priority (storedProfiles (snd (createProfile exampleURL ''uuid-2'' ''2026-02-02T00:00:00.000Z''
        (exampleInput ''https://proxy.example.com'' None None) largePriorityStore)))
      = [9007199254740992, 9007199254740992]"
  by (simp add: createProfile_def Let_def exampleInput_def nullish_def validate_public
      largePriorityStore_def storedProfiles_def updateGlobalSettings_def maxPriority_def jsAdd_example)

lemma findIndex_None: "findIndex P xs = None \<longleftrightarrow> (\<forall>x \<in> set xs. \<not> P x)"
  by (induction xs) auto

lemma findIndex_Some: "findIndex P xs = Some i \<Longrightarrow> i < length xs \<and> P (xs ! i)"
proof (induction xs arbitrary: i)
  case Nil
  then show ?case by simp
next
  case (Cons x xs)
  show ?case
  proof (cases "P x")
    case True
    with Cons.prems show ?thesis by simp
  next
    case False
    with Cons.prems obtain j where j: "findIndex P xs = Some j" "i = Suc j" by auto
    from Cons.IH [OF j(1)] j(2) show ?thesis by simp
  qed
qed

text \<open>
  \<open>updateProfile\<close> throws the not-found error, and leaves the store as it is, exactly
  when no stored profile has the given id.
\<close>

lemma updateProfile_not_found:
  "updateProfile newURL now input st
      = (Inl (Error (''Provider profile not found: '' @ u_id input)), st)
   \<longleftrightarrow> (\<forall>p \<in> set (storedProfiles st). profileId p \<noteq> u_id input)"
proof (cases "findIndex (\<lambda>p. profileId p = u_id input) (storedProfiles st)")
  case None
  then show ?thesis
    using findIndex_None [of "\<lambda>p. profileId p = u_id input" "storedProfiles st"]
    by (simp add: updateProfile_def Let_def)
next
  case (Some index)
  with findIndex_None [of "\<lambda>p. profileId p = u_id input" "storedProfiles st"]
  have ex: "\<not> (\<forall>p \<in> set (storedProfiles st). profileId p \<noteq> u_id input)" by simp
  have "updateProfile newURL now input st
      \<noteq> (Inl (Error (''Provider profile not found: '' @ u_id input)), st)"
    using Some by (simp add: updateProfile_def Let_def)
  with ex show ?thesis by blast
qed

text \<open>
  An update that gives no \<open>baseUrl\<close>, or the stored one again, does not run the guard
  and so cannot fail it, whatever it does to \<open>allowInternalUrls\<close>.
\<close>

lemma updateProfile_same_baseUrl:
  assumes "findIndex (\<lambda>p. profileId p = u_id input) (storedProfiles st) = Some index"
    and "u_baseUrl input = None \<or> u_baseUrl input = Some (baseUrl (storedProfiles st ! index))"
  shows "\<exists>p. fst (updateProfile newURL now input st) = Inr p
           \<and> baseUrl p = baseUrl (storedProfiles st ! index)
           \<and> allowInternalUrls p = nullishOpt (u_allowInternalUrls input) (allowInternalUrls (storedProfiles st ! index))"
  using assms by (auto simp: updateProfile_def Let_def nullish_def)

text \<open>
  C10. An update whose \<open>baseUrl\<close> is the empty string, which differs from the stored
  one and which the guard rejects, is not validated: \<open>updateProfile\<close> succeeds and
  writes the empty \<open>baseUrl\<close> to the store.
\<close>

theorem updateProfile_empty_baseUrl:
  "\<not> safe (validateBaseUrlSsrf exampleURL [] False)
   \<and> baseUrl (storedProfiles exampleStore ! 0) = ''https://proxy.example.com''
   \<and> updateProfile exampleURL ''2026-02-02T00:00:00.000Z'' (exampleUpdate ''p-1'' (Some []) None) exampleStore
       = (Inr (ProviderProfile ''p-1'' ''proxy'' AnthropicCompatible [] ''sk-test'' [] True 1
                 None None None None None None ''2026-01-01T00:00:00.000Z'' ''2026-02-02T00:00:00.000Z''),
          SettingsStore (Some [ProviderProfile ''p-1'' ''proxy'' AnthropicCompatible [] ''sk-test'' [] True 1
                 None None None None None None ''2026-01-01T00:00:00.000Z'' ''2026-02-02T00:00:00.000Z'']) 1)"
  by (simp add: validate_empty updateProfile_def exampleUpdate_def exampleStore_def storedProfiles_def
      exampleProfile_def Let_def nullish_def nullishOpt_def updateGlobalSettings_def)

section \<open>Properties of the connection test\<close>

lemma unexpectedResponse_prefix: "\<exists>d. unexpectedResponse response = ''Unexpected response: '' @ d"
  unfolding unexpectedResponse_def Let_def by (rule exI, rule refl)

lemma connectionTest_carries_time:
  "responseTimeMs (testProfileConnection fetch t0 t1 now profile) = Some (t1 - t0)
   \<and> testedAt (testProfileConnection fetch t0 t1 now profile) = now"
  by (simp add: testProfileConnection_def Let_def split: sum.splits Thrown.splits)

lemma connectionTest_request:
  "requestMethod (connectionTestRequest profile)
     = (if profileType profile = AnthropicCompatible then ''POST'' else ''GET'')
   \<and> requestUrl (connectionTestRequest profile)
     = stripTrailingSlashes (baseUrl profile) @
       (if profileType profile = AnthropicCompatible then ''/v1/messages'' else ''/v1/models'')"
  by (simp add: connectionTestRequest_def Let_def)

text \<open>
  C8 (as amended). The test makes one request: \<open>POST {baseUrl}/v1/messages\<close> for an
  anthropic-compatible profile, \<open>GET {baseUrl}/v1/models\<close> for an openai-compatible one.
  For both, status 401 or 403 gives \<open>success = false\<close> with the authentication error.
  For anthropic-compatible, 200, 400 and 404 give \<open>success = true\<close>. For
  openai-compatible, every status from 200 to 299 gives \<open>success = true\<close> with the model
  ids read from the body, and every other status gives \<open>success = false\<close> with an
  unexpected-response error. Every result carries \<open>responseTimeMs\<close> and \<open>testedAt\<close>.
\<close>

theorem connectionTest_classification:
  "responseTimeMs (testProfileConnection fetch t0 t1 now profile) = Some (t1 - t0)
   \<and> testedAt (testProfileConnection fetch t0 t1 now profile) = now
   \<and> requestMethod (connectionTestRequest profile)
        = (if profileType profile = AnthropicCompatible then ''POST'' else ''GET'')
   \<and> requestUrl (connectionTestRequest profile)
        = stripTrailingSlashes (baseUrl profile) @
          (if profileType profile = AnthropicCompatible then ''/v1/messages'' else ''/v1/models'')
   \<and> (fetch (connectionTestRequest profile) = Inr response \<longrightarrow>
        (status response = 401 \<or> status response = 403 \<longrightarrow>
           \<not> success (testProfileConnection fetch t0 t1 now profile)
           \<and> error (testProfileConnection fetch t0 t1 now profile) = Some authFailed)
        \<and> (profileType profile = AnthropicCompatible
             \<and> (status response = 200 \<or> status response = 400 \<or> status response = 404) \<longrightarrow>
           success (testProfileConnection fetch t0 t1 now profile))
        \<and> (profileType profile = OpenAICompatible
             \<and> 200 \<le> status response \<and> status response \<le> 299 \<longrightarrow>
           success (testProfileConnection fetch t0 t1 now profile)
           \<and> availableModels (testProfileConnection fetch t0 t1 now profile)
                = (case bodyJson response of JsonThrows \<Rightarrow> None | JsonData ids \<Rightarrow> ids))
        \<and> (profileType profile = OpenAICompatible
             \<and> status response \<noteq> 401 \<and> status response \<noteq> 403
             \<and> \<not> (200 \<le> status response \<and> status response \<le> 299) \<longrightarrow>
           \<not> success (testProfileConnection fetch t0 t1 now profile)
           \<and> (\<exists>d. error (testProfileConnection fetch t0 t1 now profile)
                    = Some (''Unexpected response: '' @ d))))"
proof (intro conjI impI)
  show "responseTimeMs (testProfileConnection fetch t0 t1 now profile) = Some (t1 - t0)"
    and "testedAt (testProfileConnection fetch t0 t1 now profile) = now"
    using connectionTest_carries_time by blast+
  show "requestMethod (connectionTestRequest profile)
        = (if profileType profile = AnthropicCompatible then ''POST'' else ''GET'')"
    and "requestUrl (connectionTestRequest profile)
        = stripTrailingSlashes (baseUrl profile) @
          (if profileType profile = AnthropicCompatible then ''/v1/messages'' else ''/v1/models'')"
    using connectionTest_request by blast+
next
  assume "fetch (connectionTestRequest profile) = Inr response"
    and "status response = 401 \<or> status response = 403"
  then show "\<not> success (testProfileConnection fetch t0 t1 now profile)"
    and "error (testProfileConnection fetch t0 t1 now profile) = Some authFailed"
    by (auto simp: testProfileConnection_def Let_def)
next
  assume "fetch (connectionTestRequest profile) = Inr response"
    and "profileType profile = AnthropicCompatible
             \<and> (status response = 200 \<or> status response = 400 \<or> status response = 404)"
  then show "success (testProfileConnection fetch t0 t1 now profile)"
    by (auto simp: testProfileConnection_def Let_def ok_def)
next
  assume "fetch (connectionTestRequest profile) = Inr response"
    and "profileType profile = OpenAICompatible
             \<and> 200 \<le> status response \<and> status response \<le> 299"
  then show "success (testProfileConnection fetch t0 t1 now profile)"
    and "availableModels (testProfileConnection fetch t0 t1 now profile)
                = (case bodyJson response of JsonThrows \<Rightarrow> None | JsonData ids \<Rightarrow> ids)"
    by (auto simp: testProfileConnection_def Let_def ok_def)
next
  assume f: "fetch (connectionTestRequest profile) = Inr response"
    and s: "profileType profile = OpenAICompatible
             \<and> status response \<noteq> 401 \<and> status response \<noteq> 403
             \<and> \<not> (200 \<le> status response \<and> status response \<le> 299)"
  then have r: "testProfileConnection fetch t0 t1 now profile
      = ConnectionTestResult False (Some (t1 - t0)) (Some (unexpectedResponse response)) None now"
    by (auto simp: testProfileConnection_def Let_def ok_def)
  then show "\<not> success (testProfileConnection fetch t0 t1 now profile)" by simp
  from r unexpectedResponse_prefix [of response]
  show "\<exists>d. error (testProfileConnection fetch t0 t1 now profile) = Some (''Unexpected response: '' @ d)"
    by auto
qed

lemma show_nat_500: "show_nat 500 = ''500''"
  by code_simp

theorem connectionTest_classification_witness:
  "testProfileConnection (answering 401 ''Unauthorized'') 100 130 ''2026-02-02T00:00:00.000Z''
       (exampleProfile ''proxy'' OpenAICompatible [])
     = ConnectionTestResult False (Some 30) (Some authFailed) None ''2026-02-02T00:00:00.000Z''
   \<and> success (testProfileConnection (answering 404 ''Not Found'') 100 130 ''2026-02-02T00:00:00.000Z''
       (exampleProfile ''proxy'' AnthropicCompatible []))
   \<and> testProfileConnection (answering 200 ''OK'') 100 130 ''2026-02-02T00:00:00.000Z''
       (exampleProfile ''proxy'' OpenAICompatible [])
     = ConnectionTestResult True (Some 30) None (Some [''gpt-4o'']) ''2026-02-02T00:00:00.000Z''
   \<and> testProfileConnection (answering 500 ''Internal Server Error'') 100 130 ''2026-02-02T00:00:00.000Z''
       (exampleProfile ''proxy'' OpenAICompatible [])
     = ConnectionTestResult False (Some 30) (Some ''Unexpected response: 500 Internal Server Error - oops'')
         None ''2026-02-02T00:00:00.000Z''"
proof -
  have a: "success (testProfileConnection (answering 404 ''Not Found'') 100 130 ''2026-02-02T00:00:00.000Z''
       (exampleProfile ''proxy'' AnthropicCompatible []))"
    using connectionTest_classification [of "answering 404 ''Not Found''" 100 130
        "''2026-02-02T00:00:00.000Z''" "exampleProfile ''proxy'' AnthropicCompatible []"
        "Response 404 ''Not Found'' (Some ''oops'') (JsonData (Some [''gpt-4o'']))"]
    by (simp add: answering_def exampleProfile_def)
  have b: "testProfileConnection (answering 401 ''Unauthorized'') 100 130 ''2026-02-02T00:00:00.000Z''
       (exampleProfile ''proxy'' OpenAICompatible [])
     = ConnectionTestResult False (Some 30) (Some authFailed) None ''2026-02-02T00:00:00.000Z''"
    by (simp add: testProfileConnection_def answering_def exampleProfile_def Let_def)
  have c: "testProfileConnection (answering 200 ''OK'') 100 130 ''2026-02-02T00:00:00.000Z''
       (exampleProfile ''proxy'' OpenAICompatible [])
     = ConnectionTestResult True (Some 30) None (Some [''gpt-4o'']) ''2026-02-02T00:00:00.000Z''"
    by (simp add: testProfileConnection_def answering_def exampleProfile_def Let_def ok_def)
  have d: "testProfileConnection (answering 500 ''Internal Server Error'') 100 130 ''2026-02-02T00:00:00.000Z''
       (exampleProfile ''proxy'' OpenAICompatible [])
     = ConnectionTestResult False (Some 30) (Some ''Unexpected response: 500 Internal Server Error - oops'')
         None ''2026-02-02T00:00:00.000Z''"
    by (simp add: testProfileConnection_def answering_def exampleProfile_def Let_def ok_def
        unexpectedResponse_def show_nat_500 nullish_def)
  from a b c d show ?thesis by simp
qed

text \<open>
  For an openai-compatible profile a status other than 200, 401 and 403 can give
  \<open>success = true\<close>: 204 does.
\<close>

theorem connectionTest_counterexample:
  "testProfileConnection (answeringEmpty 204 ''No Content'') 100 130 ''2026-02-02T00:00:00.000Z''
       (exampleProfile ''proxy'' OpenAICompatible [])
     = ConnectionTestResult True (Some 30) None None ''2026-02-02T00:00:00.000Z''"
  by (simp add: testProfileConnection_def answeringEmpty_def exampleProfile_def Let_def ok_def)

section \<open>Properties of the provider factory\<close>

lemma startsWith_iff: "startsWith s p \<longleftrightarrow> (\<exists>b. s = p @ b)"
proof
  assume "startsWith s p"
  then have "s = p @ drop (length p) s"
    by (metis append_take_drop_id startsWith_def)
  then show "\<exists>b. s = p @ b" ..
next
  assume "\<exists>b. s = p @ b"
  then show "startsWith s p" by (auto simp: startsWith_def)
qed

lemma str_includes_iff: "str_includes s n \<longleftrightarrow> (\<exists>a b. s = a @ n @ b)"
proof (induction s)
  case Nil
  then show ?case by simp
next
  case (Cons c cs)
  show ?case
  proof
    assume "str_includes (c # cs) n"
    then consider "startsWith (c # cs) n" | "str_includes cs n" by auto
    then show "\<exists>a b. c # cs = a @ n @ b"
    proof cases
      case 1
      then obtain b where "c # cs = n @ b" using startsWith_iff by blast
      then have "c # cs = [] @ n @ b" by simp
      then show ?thesis by blast
    next
      case 2
      with Cons.IH obtain a b where "cs = a @ n @ b" by blast
      then have "c # cs = (c # a) @ n @ b" by simp
      then show ?thesis by blast
    qed
  next
    assume "\<exists>a b. c # cs = a @ n @ b"
    then obtain a b where ab: "c # cs = a @ n @ b" by blast
    show "str_includes (c # cs) n"
    proof (cases a)
      case Nil
      with ab have "startsWith (c # cs) n" using startsWith_iff by auto
      then show ?thesis by simp
    next
      case (Cons d ds)
      with ab have "cs = ds @ n @ b" by simp
      with Cons.IH have "str_includes cs n" by blast
      then show ?thesis by simp
    qed
  qed
qed

lemma toLowerCase_append: "toLowerCase (a @ b) = toLowerCase a @ toLowerCase b"
  by (simp add: toLowerCase_def)

lemma startsWith_toLowerCase:
  "toLowerCase p = p \<Longrightarrow> startsWith s p \<Longrightarrow> startsWith (toLowerCase s) p"
  unfolding startsWith_iff by (metis toLowerCase_append)

lemma str_includes_toLowerCase:
  "toLowerCase n = n \<Longrightarrow> str_includes s n \<Longrightarrow> str_includes (toLowerCase s) n"
  unfolding str_includes_iff by (metis toLowerCase_append)

lemma lower_literals:
  "toLowerCase ''claude-'' = ''claude-''" "toLowerCase ''opus'' = ''opus''"
  "toLowerCase ''sonnet'' = ''sonnet''" "toLowerCase ''haiku'' = ''haiku''"
  by (simp_all add: toLowerCase_def toLowerChar_def)

lemma claude_family_lower:
  assumes "startsWith modelId ''claude-'' \<or> str_includes modelId ''opus''
      \<or> str_includes modelId ''sonnet'' \<or> str_includes modelId ''haiku''"
  shows "startsWith (toLowerCase modelId) ''claude-''
      \<or> list_ex (\<lambda>n. str_includes (toLowerCase modelId) n) [''opus'', ''sonnet'', ''haiku'']"
  using assms startsWith_toLowerCase [OF lower_literals(1), of modelId]
    str_includes_toLowerCase [OF lower_literals(2), of modelId]
    str_includes_toLowerCase [OF lower_literals(3), of modelId]
    str_includes_toLowerCase [OF lower_literals(4), of modelId]
  by auto

lemma registerProvider_keeps:
  "map_of reg k \<noteq> None \<Longrightarrow> map_of (registerProvider n r reg) k \<noteq> None"
  by (simp add: registerProvider_def AList.update_conv')

lemma claude_registered: "map_of (registryAfter isCursorModel calls) ''claude'' \<noteq> None"
proof (induction calls rule: rev_induct)
  case Nil
  show ?case
    by (simp add: registryAfter_def moduleRegistry_def registerProvider_def AList.update_conv'
        toLowerCase_def toLowerChar_def)
next
  case (snoc c calls)
  obtain n r where c: "c = (n, r)" by (cases c)
  have "registryAfter isCursorModel (calls @ [c])
      = registerProvider n r (registryAfter isCursorModel calls)"
    by (simp add: registryAfter_def c)
  with snoc.IH show ?case by (simp add: registerProvider_keeps)
qed

lemma getProviderForModel_total:
  "map_of reg ''claude'' \<noteq> None \<Longrightarrow> \<exists>provider. getProviderForModel reg modelId = Inr provider"
  by (auto simp: getProviderForModel_def split: option.splits)

text \<open>
  C2. In every registry the program can have (the module's registrations, then any
  further ones), for a Claude-family model id the chain is one anthropic proxy provider
  per active anthropic-compatible profile, in the order of the profiles, and then the
  provider of the registry's default resolution: with \<open>N\<close> such profiles, \<open>N + 1\<close>
  candidates, never none.
\<close>

theorem getFallbackProviders_claude:
  "startsWith modelId ''claude-'' \<or> str_includes modelId ''opus''
      \<or> str_includes modelId ''sonnet'' \<or> str_includes modelId ''haiku'' \<Longrightarrow>
   \<exists>standardProvider.
      getProviderForModel (registryAfter isCursorModel calls) modelId = Inr standardProvider
      \<and> getFallbackProviders (registryAfter isCursorModel calls) modelId profiles
          = Inr (map AnthropicProxyProvider
                   (filter (\<lambda>p. profileType p = AnthropicCompatible \<and> isActive p) profiles)
                 @ [standardProvider])
      \<and> length (map AnthropicProxyProvider
                   (filter (\<lambda>p. profileType p = AnthropicCompatible \<and> isActive p) profiles)
                 @ [standardProvider])
          = length (filter (\<lambda>p. profileType p = AnthropicCompatible \<and> isActive p) profiles) + 1"
proof -
  assume fam: "startsWith modelId ''claude-'' \<or> str_includes modelId ''opus''
      \<or> str_includes modelId ''sonnet'' \<or> str_includes modelId ''haiku''"
  obtain standardProvider
    where std: "getProviderForModel (registryAfter isCursorModel calls) modelId = Inr standardProvider"
    using getProviderForModel_total [OF claude_registered] by blast
  have m: "map createProviderFromProfile
        (filter (\<lambda>p. profileType p = AnthropicCompatible \<and> isActive p) profiles)
      = map AnthropicProxyProvider
        (filter (\<lambda>p. profileType p = AnthropicCompatible \<and> isActive p) profiles)"
    by (rule map_cong) (auto simp: createProviderFromProfile_def)
  have "getFallbackProviders (registryAfter isCursorModel calls) modelId profiles
      = Inr (map AnthropicProxyProvider
              (filter (\<lambda>p. profileType p = AnthropicCompatible \<and> isActive p) profiles)
             @ [standardProvider])"
    using claude_family_lower [OF fam] std m by (simp add: getFallbackProviders_def Let_def)
  with std show ?thesis by simp
qed


lemma exampleRegistry_sorted:
  "sortedRegistrations exampleRegistry
     = [(''cursor'', ProviderRegistration CursorProvider None (Some (\<lambda>m. exampleIsCursorModel m)) (Some 10)),
        (''claude'', ProviderRegistration ClaudeProvider (Some [''anthropic'']) (Some claudeCanHandleModel) (Some 0))]"
  by (simp add: sortedRegistrations_def exampleRegistry_def moduleRegistry_def registerProvider_def
      toLowerCase_def toLowerChar_def nullish_def)

lemma exampleRegistry_claude:
  "getProviderForModel exampleRegistry ''claude-sonnet-4'' = Inr ClaudeProvider"
  by (simp add: getProviderForModel_def getProviderByName_def getProviderNameForModel_def Let_def
      exampleRegistry_sorted handles_def exampleIsCursorModel_def claudeCanHandleModel_def startsWith_def
      toLowerCase_def toLowerChar_def)
    (simp add: exampleRegistry_def moduleRegistry_def registerProvider_def toLowerCase_def toLowerChar_def)

theorem getFallbackProviders_claude_witness:
  "getFallbackProviders exampleRegistry ''claude-sonnet-4'' exampleProfiles
     = Inr [AnthropicProxyProvider (exampleProfiles ! 0), AnthropicProxyProvider (exampleProfiles ! 2),
            ClaudeProvider]"
proof -
  have h: "startsWith ''claude-sonnet-4'' ''claude-'' \<or> str_includes ''claude-sonnet-4'' ''opus''
      \<or> str_includes ''claude-sonnet-4'' ''sonnet'' \<or> str_includes ''claude-sonnet-4'' ''haiku''"
    by (simp add: startsWith_def)
  have r: "registryAfter exampleIsCursorModel [] = exampleRegistry"
    by (simp add: registryAfter_def exampleRegistry_def)
  from getFallbackProviders_claude [OF h, of exampleIsCursorModel "[]" exampleProfiles]
  obtain standardProvider where
    "getProviderForModel exampleRegistry ''claude-sonnet-4'' = Inr standardProvider"
    and f: "getFallbackProviders exampleRegistry ''claude-sonnet-4'' exampleProfiles
          = Inr (map AnthropicProxyProvider
                   (filter (\<lambda>p. profileType p = AnthropicCompatible \<and> isActive p) exampleProfiles)
                 @ [standardProvider])"
    unfolding r by (elim exE conjE)
  then have "standardProvider = ClaudeProvider" by (simp add: exampleRegistry_claude)
  with f show ?thesis by (simp add: exampleProfiles_def)
qed











section \<open>Properties of the execution with fallback\<close>

text \<open>
  Where the message of every value thrown can be read, the loop makes the attempts of the
  specification and writes their log.
\<close>

lemma tryProviders_attempts:
  "\<forall>t \<in> set (attempts executor ps w). messageReadable (fst (snd t)) \<Longrightarrow>
   tryProviders nameOf executor n i ps lastError w lg =
     (case attempts executor ps w of
        [] \<Rightarrow> (ChainEnded lastError, w, lg)
      | t # ts \<Rightarrow>
          ((case fst (snd (last (t # ts))) of Inl v \<Rightarrow> ChainEnded (Some v) | Inr r \<Rightarrow> Returned r),
           snd (snd (last (t # ts))),
           lg @ expectedLog nameOf n i (t # ts)))"
proof (induction ps arbitrary: i lastError w lg)
  case Nil
  show ?case by simp
next
  case (Cons p ps)
  obtain out w' where ex: "executor p w = (out, w')" by (cases "executor p w")
  show ?case
  proof (cases out)
    case (Inr r)
    with ex show ?thesis by simp
  next
    case (Inl v)
    with ex have a: "attempts executor (p # ps) w = (p, Inl v, w') # attempts executor ps w'" by simp
    from Cons.prems have "messageReadable (Inl v :: JsValue + 'a)" unfolding a by simp
    then obtain failure where m: "messageText v = Inr failure"
      by (cases "messageText v") (simp_all add: messageReadable_def)
    from Cons.prems have rest: "\<forall>t \<in> set (attempts executor ps w'). messageReadable (fst (snd t))"
      unfolding a by simp
    from Cons.IH [OF rest, of "Suc i" "Some v" "lg @ [debugEntry nameOf n i p, warnEntry nameOf n i p failure]"]
      ex Inl m
    show ?thesis by (simp split: list.splits)
  qed
qed

lemma attempts_prefix: "map fst (attempts executor ps w) = take (length (attempts executor ps w)) ps"
proof (induction ps arbitrary: w)
  case Nil
  show ?case by simp
next
  case (Cons p ps)
  obtain out w' where ex: "executor p w = (out, w')" by (cases "executor p w")
  with Cons.IH [of w'] show ?case by (cases out) simp_all
qed

lemma attempts_nonempty: "ps \<noteq> [] \<Longrightarrow> attempts executor ps w \<noteq> []"
  by (cases ps) (auto split: prod.splits sum.splits)

lemma attempts_failed_before_last:
  "Suc i < length (attempts executor ps w) \<Longrightarrow> isl (fst (snd (attempts executor ps w ! i)))"
proof (induction ps arbitrary: w i)
  case Nil
  then show ?case by simp
next
  case (Cons p ps)
  obtain out w' where ex: "executor p w = (out, w')" by (cases "executor p w")
  show ?case
  proof (cases out)
    case (Inr r)
    with ex Cons.prems show ?thesis by simp
  next
    case (Inl e)
    with ex have a: "attempts executor (p # ps) w = (p, Inl e, w') # attempts executor ps w'" by simp
    show ?thesis
    proof (cases i)
      case 0
      with a show ?thesis by simp
    next
      case (Suc j)
      with a Cons.prems have "Suc j < length (attempts executor ps w')" by simp
      from Cons.IH [OF this] a Suc show ?thesis by simp
    qed
  qed
qed

lemma attempts_exhausted:
  "ps \<noteq> [] \<Longrightarrow> isl (fst (snd (last (attempts executor ps w)))) \<Longrightarrow>
     length (attempts executor ps w) = length ps"
proof (induction ps arbitrary: w)
  case Nil
  then show ?case by simp
next
  case (Cons p ps)
  obtain out w' where ex: "executor p w = (out, w')" by (cases "executor p w")
  show ?case
  proof (cases out)
    case (Inr r)
    with ex Cons.prems show ?thesis by simp
  next
    case (Inl e)
    with ex have a: "attempts executor (p # ps) w = (p, Inl e, w') # attempts executor ps w'" by simp
    show ?thesis
    proof (cases "ps = []")
      case True
      with a show ?thesis by simp
    next
      case False
      then have ne: "attempts executor ps w' \<noteq> []" by (rule attempts_nonempty)
      with Cons.prems(2) a have "isl (fst (snd (last (attempts executor ps w'))))" by simp
      from Cons.IH [OF False this] a show ?thesis by simp
    qed
  qed
qed

lemma expectedLog_warns:
  "\<forall>t \<in> set tr. messageReadable (fst (snd t)) \<Longrightarrow>
   length (filter (\<lambda>entry. fst entry = LogWarn) (expectedLog nameOf n i tr))
     = length (filter (\<lambda>t. isl (fst (snd t))) tr)"
proof (induction tr arbitrary: i)
  case Nil
  show ?case by simp
next
  case (Cons t tr)
  obtain p out w where t: "t = (p, out, w)" by (cases t)
  from Cons.prems have rest: "\<forall>t \<in> set tr. messageReadable (fst (snd t))" by simp
  show ?case
  proof (cases out)
    case (Inr r)
    with t Cons.IH [OF rest, of "Suc i"] show ?thesis by (simp add: debugEntry_def)
  next
    case (Inl v)
    with Cons.prems t obtain failure where "messageText v = Inr failure"
      by (cases "messageText v") (simp_all add: messageReadable_def)
    with Inl t Cons.IH [OF rest, of "Suc i"] show ?thesis
      by (simp add: debugEntry_def warnEntry_def)
  qed
qed

lemma expectedLog_debugs:
  "length (filter (\<lambda>entry. fst entry = LogDebug) (expectedLog nameOf n i tr)) = length tr"
  by (induction tr arbitrary: i) (auto simp: debugEntry_def warnEntry_def split: sum.splits)

lemma getFallbackProviders_nonempty:
  "getFallbackProviders reg modelId profiles = Inr providers \<Longrightarrow> providers \<noteq> []"
  by (auto simp: getFallbackProviders_def Let_def split: sum.splits)

lemma executeWithFallback_attempts:
  assumes "getFallbackProviders reg modelId profiles = Inr providers"
    and "\<forall>t \<in> set (attempts executor providers w). messageReadable (fst (snd t))"
  shows "executeWithFallback nameOf reg modelId profiles executor w
     = ((case fst (snd (last (attempts executor providers w))) of
           Inl v \<Rightarrow>
             Inl (if isTruthy v then v
                  else newError ''Error'' (''All providers failed for model: '' @ modelId))
         | Inr r \<Rightarrow> Inr r),
        snd (snd (last (attempts executor providers w))),
        expectedLog nameOf (length providers) 0 (attempts executor providers w))"
proof -
  from assms(1) have "providers \<noteq> []" by (rule getFallbackProviders_nonempty)
  then obtain t ts where tr: "attempts executor providers w = t # ts"
    using attempts_nonempty [of providers executor w] by (cases "attempts executor providers w") auto
  note loop = tryProviders_attempts [OF assms(2), of nameOf "length providers" 0 None "[]", unfolded tr]
  show ?thesis
  proof (cases "fst (snd (last (t # ts)))")
    case (Inl v)
    then show ?thesis
      unfolding executeWithFallback_def assms(1) tr by (simp add: loop del: last.simps)
  next
    case (Inr r)
    then show ?thesis
      unfolding executeWithFallback_def assms(1) tr by (simp add: loop del: last.simps)
  qed
qed

text \<open>The execution over a chain that has been built.\<close>

lemma executeWithFallback_chain:
  assumes "getFallbackProviders reg modelId profiles = Inr providers"
  shows "attempts executor providers w \<noteq> []
    \<and> map fst (attempts executor providers w) = take (length (attempts executor providers w)) providers
    \<and> (\<forall>i. Suc i < length (attempts executor providers w) \<longrightarrow>
          isl (fst (snd (attempts executor providers w ! i))))
    \<and> (isl (fst (snd (last (attempts executor providers w)))) \<longrightarrow>
          length (attempts executor providers w) = length providers)
    \<and> ((\<forall>t \<in> set (attempts executor providers w). messageReadable (fst (snd t))) \<longrightarrow>
          fst (snd (executeWithFallback nameOf reg modelId profiles executor w))
            = snd (snd (last (attempts executor providers w)))
        \<and> snd (snd (executeWithFallback nameOf reg modelId profiles executor w))
            = expectedLog nameOf (length providers) 0 (attempts executor providers w)
        \<and> length (filter (\<lambda>entry. fst entry = LogWarn)
            (snd (snd (executeWithFallback nameOf reg modelId profiles executor w))))
            = length (filter (\<lambda>t. isl (fst (snd t))) (attempts executor providers w))
        \<and> length (filter (\<lambda>entry. fst entry = LogDebug)
            (snd (snd (executeWithFallback nameOf reg modelId profiles executor w))))
            = length (attempts executor providers w)
        \<and> (truthyFailure (fst (snd (last (attempts executor providers w)))) \<longrightarrow>
             fst (executeWithFallback nameOf reg modelId profiles executor w)
               = fst (snd (last (attempts executor providers w)))))"
proof -
  from assms have ne: "providers \<noteq> []" by (rule getFallbackProviders_nonempty)
  show ?thesis
  proof (intro conjI allI impI)
    show "attempts executor providers w \<noteq> []" using ne by (rule attempts_nonempty)
    show "map fst (attempts executor providers w) = take (length (attempts executor providers w)) providers"
      by (rule attempts_prefix)
    show "isl (fst (snd (attempts executor providers w ! i)))"
      if "Suc i < length (attempts executor providers w)" for i
      using that by (rule attempts_failed_before_last)
    show "length (attempts executor providers w) = length providers"
      if "isl (fst (snd (last (attempts executor providers w))))"
      using ne that by (rule attempts_exhausted)
  next
    assume t: "\<forall>t \<in> set (attempts executor providers w). messageReadable (fst (snd t))"
    note run = executeWithFallback_attempts [OF assms t, of nameOf]
    show "fst (snd (executeWithFallback nameOf reg modelId profiles executor w))
         = snd (snd (last (attempts executor providers w)))"
      by (simp add: run)
    show "snd (snd (executeWithFallback nameOf reg modelId profiles executor w))
         = expectedLog nameOf (length providers) 0 (attempts executor providers w)"
      by (simp add: run)
    show "length (filter (\<lambda>entry. fst entry = LogWarn)
         (snd (snd (executeWithFallback nameOf reg modelId profiles executor w))))
         = length (filter (\<lambda>t. isl (fst (snd t))) (attempts executor providers w))"
      by (simp add: run expectedLog_warns [OF t])
    show "length (filter (\<lambda>entry. fst entry = LogDebug)
         (snd (snd (executeWithFallback nameOf reg modelId profiles executor w))))
         = length (attempts executor providers w)"
      by (simp add: run expectedLog_debugs)
    show "fst (executeWithFallback nameOf reg modelId profiles executor w)
         = fst (snd (last (attempts executor providers w)))"
      if "truthyFailure (fst (snd (last (attempts executor providers w))))"
      using that by (cases "fst (snd (last (attempts executor providers w)))")
        (simp_all add: run truthyFailure_def)
  qed
qed

text \<open>
  C1 (as amended). In every registry the program can have, the chain is built. Take the
  attempts the specification describes: the candidates of the chain invoked in order, up
  to the first success. They are a prefix of the chain; every attempt before the last one
  failed; if the last one failed, the chain is exhausted. For an operation whose failed
  attempts throw values \<open>v\<close> for which \<open>${v.message}\<close> gives a string, as it does for every
  \<open>Error\<close> made by \<open>new Error\<close>, the execution makes exactly these attempts, no later
  candidate being invoked, and the log has one entry for every attempt and one failure
  entry for every failed attempt. Then the execution returns the result of the last
  attempt when it succeeded; and when it failed with a value that is true, as every
  object is, the execution throws this value, itself and unwrapped.
\<close>

theorem executeWithFallback_first_success:
  "\<exists>providers.
      getFallbackProviders (registryAfter isCursorModel calls) modelId profiles = Inr providers
    \<and> attempts executor providers w \<noteq> []
    \<and> map fst (attempts executor providers w) = take (length (attempts executor providers w)) providers
    \<and> (\<forall>i. Suc i < length (attempts executor providers w) \<longrightarrow>
          isl (fst (snd (attempts executor providers w ! i))))
    \<and> (isl (fst (snd (last (attempts executor providers w)))) \<longrightarrow>
          length (attempts executor providers w) = length providers)
    \<and> ((\<forall>t \<in> set (attempts executor providers w). messageReadable (fst (snd t))) \<longrightarrow>
          fst (snd (executeWithFallback nameOf (registryAfter isCursorModel calls) modelId profiles executor w))
            = snd (snd (last (attempts executor providers w)))
        \<and> snd (snd (executeWithFallback nameOf (registryAfter isCursorModel calls) modelId profiles executor w))
            = expectedLog nameOf (length providers) 0 (attempts executor providers w)
        \<and> length (filter (\<lambda>entry. fst entry = LogWarn)
            (snd (snd (executeWithFallback nameOf (registryAfter isCursorModel calls) modelId profiles executor w))))
            = length (filter (\<lambda>t. isl (fst (snd t))) (attempts executor providers w))
        \<and> length (filter (\<lambda>entry. fst entry = LogDebug)
            (snd (snd (executeWithFallback nameOf (registryAfter isCursorModel calls) modelId profiles executor w))))
            = length (attempts executor providers w)
        \<and> (truthyFailure (fst (snd (last (attempts executor providers w)))) \<longrightarrow>
             fst (executeWithFallback nameOf (registryAfter isCursorModel calls) modelId profiles executor w)
               = fst (snd (last (attempts executor providers w)))))"
proof -
  obtain standardProvider
    where "getProviderForModel (registryAfter isCursorModel calls) modelId = Inr standardProvider"
    using getProviderForModel_total [OF claude_registered] by blast
  then obtain providers
    where chain: "getFallbackProviders (registryAfter isCursorModel calls) modelId profiles = Inr providers"
    by (simp add: getFallbackProviders_def Let_def)
  show ?thesis
    by (rule exI [of _ providers], rule conjI [OF chain], rule executeWithFallback_chain [OF chain])
qed

lemma exampleChain:
  "getFallbackProviders exampleRegistry ''claude-sonnet-4'' profiles
     = Inr (map createProviderFromProfile
              (filter (\<lambda>p. profileType p = AnthropicCompatible \<and> isActive p) profiles)
            @ [ClaudeProvider])"
  by (simp add: getFallbackProviders_def Let_def exampleRegistry_claude startsWith_def
      toLowerCase_def toLowerChar_def)

lemma exampleChain3:
  "getFallbackProviders exampleRegistry ''claude-sonnet-4'' exampleProfiles
     = Inr [AnthropicProxyProvider (exampleProfiles ! 0), AnthropicProxyProvider (exampleProfiles ! 2),
            ClaudeProvider]"
  by (simp add: exampleChain) (simp add: exampleProfiles_def createProviderFromProfile_def)

lemma exampleChain2:
  "getFallbackProviders exampleRegistry ''claude-sonnet-4'' [exampleProfiles ! 0]
     = Inr [AnthropicProxyProvider (exampleProfiles ! 0), ClaudeProvider]"
  by (simp add: exampleChain) (simp add: exampleProfiles_def createProviderFromProfile_def)

lemma exampleChain1:
  "getFallbackProviders exampleRegistry ''claude-sonnet-4'' [] = Inr [ClaudeProvider]"
  by (simp add: exampleChain)

lemma exampleAttempts3:
  "attempts proxiesDown
     [AnthropicProxyProvider (exampleProfiles ! 0), AnthropicProxyProvider (exampleProfiles ! 2),
      ClaudeProvider] 0
   = [(AnthropicProxyProvider (exampleProfiles ! 0), Inl (newError ''Error'' ''refused by first''), 1),
      (AnthropicProxyProvider (exampleProfiles ! 2), Inl (newError ''Error'' ''refused by second''), 2),
      (ClaudeProvider, Inr ''done'', 3)]"
  by (simp add: proxiesDown_def exampleProfiles_def)

theorem executeWithFallback_first_success_witness:
  "fst (executeWithFallback exampleNameOf exampleRegistry ''claude-sonnet-4'' exampleProfiles proxiesDown 0)
     = Inr ''done''
   \<and> fst (snd (executeWithFallback exampleNameOf exampleRegistry ''claude-sonnet-4'' exampleProfiles
        proxiesDown 0)) = 3
   \<and> length (filter (\<lambda>entry. fst entry = LogWarn)
        (snd (snd (executeWithFallback exampleNameOf exampleRegistry ''claude-sonnet-4'' exampleProfiles
           proxiesDown 0)))) = 2
   \<and> length (filter (\<lambda>entry. fst entry = LogDebug)
        (snd (snd (executeWithFallback exampleNameOf exampleRegistry ''claude-sonnet-4'' exampleProfiles
           proxiesDown 0)))) = 3"
proof -
  have r: "registryAfter exampleIsCursorModel [] = exampleRegistry"
    by (simp add: registryAfter_def exampleRegistry_def)
  note run = executeWithFallback_first_success [of exampleIsCursorModel "[]" "''claude-sonnet-4''"
      exampleProfiles proxiesDown 0 exampleNameOf, unfolded r]
  then obtain providers where
    chain: "getFallbackProviders exampleRegistry ''claude-sonnet-4'' exampleProfiles = Inr providers"
    and rest: "(\<forall>t \<in> set (attempts proxiesDown providers 0). messageReadable (fst (snd t))) \<longrightarrow>
          fst (snd (executeWithFallback exampleNameOf exampleRegistry ''claude-sonnet-4'' exampleProfiles
                 proxiesDown 0))
            = snd (snd (last (attempts proxiesDown providers 0)))
        \<and> snd (snd (executeWithFallback exampleNameOf exampleRegistry ''claude-sonnet-4'' exampleProfiles
                 proxiesDown 0))
            = expectedLog exampleNameOf (length providers) 0 (attempts proxiesDown providers 0)
        \<and> length (filter (\<lambda>entry. fst entry = LogWarn)
            (snd (snd (executeWithFallback exampleNameOf exampleRegistry ''claude-sonnet-4'' exampleProfiles
                 proxiesDown 0))))
            = length (filter (\<lambda>t. isl (fst (snd t))) (attempts proxiesDown providers 0))
        \<and> length (filter (\<lambda>entry. fst entry = LogDebug)
            (snd (snd (executeWithFallback exampleNameOf exampleRegistry ''claude-sonnet-4'' exampleProfiles
                 proxiesDown 0))))
            = length (attempts proxiesDown providers 0)
        \<and> (truthyFailure (fst (snd (last (attempts proxiesDown providers 0)))) \<longrightarrow>
             fst (executeWithFallback exampleNameOf exampleRegistry ''claude-sonnet-4'' exampleProfiles
                    proxiesDown 0)
               = fst (snd (last (attempts proxiesDown providers 0))))"
    by (elim exE conjE)
  from chain have p: "providers
      = [AnthropicProxyProvider (exampleProfiles ! 0), AnthropicProxyProvider (exampleProfiles ! 2),
         ClaudeProvider]"
    by (simp add: exampleChain3)
  have t: "\<forall>t \<in> set (attempts proxiesDown providers 0). messageReadable (fst (snd t))"
    unfolding p exampleAttempts3 by (simp add: messageReadable_def newError_def)
  have l: "truthyFailure (fst (snd (last (attempts proxiesDown providers 0))))"
    unfolding p exampleAttempts3 by (simp add: truthyFailure_def)
  note f = rest [THEN mp, OF t, unfolded p exampleAttempts3]
  have result: "fst (executeWithFallback exampleNameOf exampleRegistry ''claude-sonnet-4''
      exampleProfiles proxiesDown 0) = Inr ''done''"
    using f [THEN conjunct2, THEN conjunct2, THEN conjunct2, THEN conjunct2, THEN mp,
        OF l [unfolded p exampleAttempts3]] by simp
  have world: "fst (snd (executeWithFallback exampleNameOf exampleRegistry ''claude-sonnet-4''
      exampleProfiles proxiesDown 0)) = 3"
    using f [THEN conjunct1] by simp
  have warns: "length (filter (\<lambda>entry. fst entry = LogWarn)
      (snd (snd (executeWithFallback exampleNameOf exampleRegistry ''claude-sonnet-4'' exampleProfiles
         proxiesDown 0)))) = 2"
    using f [THEN conjunct2, THEN conjunct2, THEN conjunct1] by simp
  have debugs: "length (filter (\<lambda>entry. fst entry = LogDebug)
      (snd (snd (executeWithFallback exampleNameOf exampleRegistry ''claude-sonnet-4'' exampleProfiles
         proxiesDown 0)))) = 3"
    using f [THEN conjunct2, THEN conjunct2, THEN conjunct2, THEN conjunct1] by simp
  from result world warns debugs show ?thesis by (intro conjI)
qed

text \<open>
  Three executions that the claim as stated excludes. With the chain \<open>[A, B]\<close> failing
  with errors, the value thrown is the one \<open>B\<close> threw, as it is: the same value the caller
  gets from the chain \<open>[B]\<close> alone, so the caller cannot tell the exhausted chain from the
  failure of a single provider. When the candidates throw the empty string, the value
  thrown is not the last one observed but the new error. When \<open>A\<close> throws \<open>null\<close>, the
  \<open>catch\<close> block throws a \<open>TypeError\<close> and \<open>B\<close>, which would succeed, is never invoked:
  the world has seen one invocation.
\<close>

theorem executeWithFallback_counterexample:
  "fst (executeWithFallback exampleNameOf exampleRegistry ''claude-sonnet-4'' [exampleProfiles ! 0] allDown 0)
     = Inl (newError ''Error'' ''overloaded'')
   \<and> fst (executeWithFallback exampleNameOf exampleRegistry ''claude-sonnet-4'' [] allDown 0)
     = Inl (newError ''Error'' ''overloaded'')
   \<and> getFallbackProviders exampleRegistry ''claude-sonnet-4'' [exampleProfiles ! 0]
     = Inr [AnthropicProxyProvider (exampleProfiles ! 0), ClaudeProvider]
   \<and> getFallbackProviders exampleRegistry ''claude-sonnet-4'' [] = Inr [ClaudeProvider]
   \<and> fst (allDown (AnthropicProxyProvider (exampleProfiles ! 0)) 0)
     = Inl (newError ''Error'' ''refused by first'')
   \<and> fst (executeWithFallback exampleNameOf exampleRegistry ''claude-sonnet-4'' [exampleProfiles ! 0]
        allThrowEmptyString 0)
     = Inl (newError ''Error'' ''All providers failed for model: claude-sonnet-4'')
   \<and> fst (executeWithFallback exampleNameOf exampleRegistry ''claude-sonnet-4'' [exampleProfiles ! 0]
        proxiesThrowNull 0)
     = Inl (messageTypeError ''null'')
   \<and> fst (snd (executeWithFallback exampleNameOf exampleRegistry ''claude-sonnet-4'' [exampleProfiles ! 0]
        proxiesThrowNull 0)) = 1
   \<and> fst (proxiesThrowNull ClaudeProvider 1) = Inr ''done''"
proof -
  have a: "fst (allDown (AnthropicProxyProvider (exampleProfiles ! 0)) 0)
      = Inl (newError ''Error'' ''refused by first'')"
    by (simp add: allDown_def exampleProfiles_def)
  have r2: "fst (executeWithFallback exampleNameOf exampleRegistry ''claude-sonnet-4''
      [exampleProfiles ! 0] allDown 0) = Inl (newError ''Error'' ''overloaded'')"
    unfolding executeWithFallback_def exampleChain2
    by (simp add: allDown_def newError_def)
  have r1: "fst (executeWithFallback exampleNameOf exampleRegistry ''claude-sonnet-4'' [] allDown 0)
     = Inl (newError ''Error'' ''overloaded'')"
    unfolding executeWithFallback_def exampleChain1
    by (simp add: allDown_def newError_def)
  have e: "fst (executeWithFallback exampleNameOf exampleRegistry ''claude-sonnet-4'' [exampleProfiles ! 0]
        allThrowEmptyString 0)
     = Inl (newError ''Error'' ''All providers failed for model: claude-sonnet-4'')"
    unfolding executeWithFallback_def exampleChain2
    by (simp add: allThrowEmptyString_def newError_def)
  have n: "fst (executeWithFallback exampleNameOf exampleRegistry ''claude-sonnet-4'' [exampleProfiles ! 0]
        proxiesThrowNull 0) = Inl (messageTypeError ''null'')"
    unfolding executeWithFallback_def exampleChain2
    by (simp add: proxiesThrowNull_def)
  have n': "fst (snd (executeWithFallback exampleNameOf exampleRegistry ''claude-sonnet-4''
        [exampleProfiles ! 0] proxiesThrowNull 0)) = 1"
    unfolding executeWithFallback_def exampleChain2
    by (simp add: proxiesThrowNull_def)
  have d: "fst (proxiesThrowNull ClaudeProvider 1) = Inr ''done''"
    by (simp add: proxiesThrowNull_def)
  from r2 r1 exampleChain2 exampleChain1 a e n n' d show ?thesis by simp
qed

section \<open>Properties of the stream decoding\<close>

lemma splitLines_nonempty: "splitLines s \<noteq> []"
  by (induction s) (auto split: list.splits)

lemma splitLines_step:
  "c \<noteq> CHR 0x0A \<Longrightarrow> splitLines (c # cs) = (c # hd (splitLines cs)) # tl (splitLines cs)"
  using splitLines_nonempty [of cs] by (cases "splitLines cs") simp_all

lemma splitLines_append:
  "splitLines (a @ b) = butlast (splitLines a) @ splitLines (last (splitLines a) @ b)"
proof (induction a)
  case Nil
  show ?case by simp
next
  case (Cons c cs)
  let ?X = "splitLines cs"
  let ?Y = "splitLines (last ?X @ b)"
  have X: "?X \<noteq> []" and Y: "?Y \<noteq> []" by (rule splitLines_nonempty)+
  show ?case
  proof (cases "c = CHR 0x0A")
    case True
    with Cons.IH X show ?thesis by simp
  next
    case False
    note step = splitLines_step [OF False]
    show ?thesis
    proof (cases "butlast ?X = []")
      case True
      with X have one: "?X = [last ?X]" by (metis append_butlast_last_id append_Nil)
      then have hdX: "hd ?X = last ?X" and tlX: "tl ?X = []" by (metis list.sel(1), metis list.sel(3))
      from Cons.IH True have ab: "splitLines (cs @ b) = ?Y" by simp
      have l: "splitLines (c # cs) = [c # last ?X]" unfolding step hdX tlX by (rule refl)
      have e1: "splitLines ((c # cs) @ b) = (c # hd ?Y) # tl ?Y"
        using step [of "cs @ b"] unfolding ab by simp
      have e2: "splitLines ((c # last ?X) @ b) = (c # hd ?Y) # tl ?Y"
        using step [of "last ?X @ b"] by simp
      have rhs: "butlast (splitLines (c # cs)) @ splitLines (last (splitLines (c # cs)) @ b)
          = splitLines ((c # last ?X) @ b)"
        unfolding l by (simp del: splitLines.simps)
      show ?thesis unfolding rhs e2 by (rule e1)
    next
      case nonempty: False
      then have tlX: "tl ?X \<noteq> []" by (cases ?X) auto
      from nonempty have hdb: "hd (butlast ?X @ ?Y) = hd ?X" by (cases ?X) auto
      from nonempty have tlb: "tl (butlast ?X @ ?Y) = butlast (tl ?X) @ ?Y" by (cases ?X) auto
      have l: "splitLines (c # cs) = (c # hd ?X) # tl ?X" by (rule step)
      from tlX have lastl: "last ((c # hd ?X) # tl ?X) = last ?X"
        by (metis last_ConsR last_tl)
      from tlX have butl: "butlast ((c # hd ?X) # tl ?X) = (c # hd ?X) # butlast (tl ?X)" by simp
      have lhs: "splitLines ((c # cs) @ b) = (c # hd ?X) # butlast (tl ?X) @ ?Y"
        using step [of "cs @ b"] unfolding Cons.IH hdb tlb by simp
      have rhs: "butlast (splitLines (c # cs)) @ splitLines (last (splitLines (c # cs)) @ b)
          = ((c # hd ?X) # butlast (tl ?X)) @ ?Y"
        unfolding l lastl butl by (rule refl)
      show ?thesis unfolding rhs using lhs by simp
    qed
  qed
qed

lemma feed_feed:
  "feed parseChunk parseArguments sid (feed parseChunk parseArguments sid bs a) b
     = feed parseChunk parseArguments sid bs (a @ b)"
proof -
  let ?X = "splitLines (fst bs @ a)"
  let ?Y = "splitLines (last ?X @ b)"
  have Y: "?Y \<noteq> []" by (rule splitLines_nonempty)
  have s: "splitLines (fst bs @ a @ b) = butlast ?X @ ?Y"
    using splitLines_append [of "fst bs @ a" b] by simp
  from Y have "last (butlast ?X @ ?Y) = last ?Y" "butlast (butlast ?X @ ?Y) = butlast ?X @ butlast ?Y"
    by (simp_all add: butlast_append)
  then show ?thesis by (simp add: feed_def Let_def s)
qed

lemma feed_reads:
  "foldl (feed parseChunk parseArguments sid) bs (r # reads)
     = feed parseChunk parseArguments sid bs (concat (r # reads))"
proof (induction reads arbitrary: bs r)
  case Nil
  show ?case by simp
next
  case (Cons r' reads)
  have "foldl (feed parseChunk parseArguments sid) bs (r # r' # reads)
      = foldl (feed parseChunk parseArguments sid) (feed parseChunk parseArguments sid bs r) (r' # reads)"
    by simp
  also have "\<dots> = feed parseChunk parseArguments sid (feed parseChunk parseArguments sid bs r) (concat (r' # reads))"
    by (rule Cons.IH)
  also have "\<dots> = feed parseChunk parseArguments sid bs (r @ concat (r' # reads))"
    by (rule feed_feed)
  finally show ?case by simp
qed


lemma hiBody_lines: "splitLines hiBody = [''data: '' @ hiPayload, [], ''data: [DONE]'', [], []]"
  by (simp add: hiBody_def hiPayload_def)

lemma processLine_hi:
  "parseChunk hiPayload = Some hiChunk \<Longrightarrow>
     processLine parseChunk parseArguments sid (''data: '' @ hiPayload) st
       = processChunk parseArguments sid hiChunk st"
proof -
  assume p: "parseChunk hiPayload = Some hiChunk"
  have a: "startsWith (''data: '' @ hiPayload) ''data: ''" by (simp add: startsWith_def)
  have b: "drop 6 (''data: '' @ hiPayload) = hiPayload" by simp
  have c: "hiPayload \<noteq> ''[DONE]''" by (simp add: hiPayload_def)
  show ?thesis unfolding processLine_def Let_def b using a c p by simp
qed

lemma processLine_other:
  "processLine parseChunk parseArguments sid [] st = st"
  "processLine parseChunk parseArguments sid ''data: [DONE]'' st = st"
  by (simp_all add: processLine_def startsWith_def)

lemma processChunk_hi:
  "processChunk parseArguments sid hiChunk (DecoderState [] [] [] [])
     = DecoderState ''Hi'' [] [AssistantMessage sid [TextBlock ''Hi'']] []"
  by (simp add: processChunk_def hiChunk_def truthy_def nullish_def Let_def)

text \<open>
  C6. Whatever the reads in which the body of the example arrives, and given that
  \<open>JSON.parse\<close> reads its data payload as the chunk it denotes, the decoding yields one
  assistant message with the text \<open>Hi\<close> and then the result message with the accumulated
  text \<open>Hi\<close>, and nothing else; nothing is logged, the \<open>[DONE]\<close> line being skipped
  before it is parsed.
\<close>

theorem decodeStream_hi:
  assumes "parseChunk hiPayload = Some hiChunk" and "concat reads = hiBody"
  shows "decodeStream parseChunk parseArguments nowMs reads
     = ([AssistantMessage (''openai-'' @ show_int nowMs) [TextBlock ''Hi''],
         ResultMessage (''openai-'' @ show_int nowMs) ''Hi''], [])"
proof -
  let ?sid = "''openai-'' @ show_int nowMs"
  have "hiBody \<noteq> []" by (simp add: hiBody_def)
  with assms(2) obtain r rs where reads: "reads = r # rs" by (cases reads) auto
  have "foldl (feed parseChunk parseArguments ?sid) ([], DecoderState [] [] [] []) reads
      = feed parseChunk parseArguments ?sid ([], DecoderState [] [] [] []) hiBody"
    unfolding reads feed_reads using assms(2) reads by simp
  also have "\<dots> = ([], DecoderState ''Hi'' [] [AssistantMessage ?sid [TextBlock ''Hi'']] [])"
    by (simp add: feed_def hiBody_lines processLine_hi [of parseChunk, OF assms(1), simplified] processLine_other
        processChunk_hi)
  finally show ?thesis by (simp add: decodeStream_def Let_def)
qed

theorem decodeStream_hi_witness:
  "decodeStream hiParser noArguments 0 [take 40 hiBody, drop 40 hiBody]
     = ([AssistantMessage (''openai-'' @ show_int 0) [TextBlock ''Hi''],
         ResultMessage (''openai-'' @ show_int 0) ''Hi''], [])"
  by (rule decodeStream_hi) (simp_all add: hiParser_def)

end
